theory Spec2Isabelle
  imports Main
begin

section \<open>Python strings\<close>

text \<open>
  A Python \<open>str\<close> is a sequence of Unicode code points; a code point is modelled as a
  natural number, so that the emoji of the fixed messages and the non-ASCII white space
  that \<open>str.strip\<close> and \<open>str.split\<close> recognise are ordinary characters of the model.
  \<open>asc\<close> turns an ASCII literal into such a string.
\<close>

type_synonym pystr = "nat list"

definition asc :: "string \<Rightarrow> pystr" where
  "asc s = map of_char s"

text \<open>
  The white space of \<open>str.isspace\<close>, \<open>str.strip()\<close> and \<open>str.split()\<close>: the ASCII
  controls 9 to 13 and 28 to 31, the space, and the Unicode separators.
\<close>

definition is_space :: "nat \<Rightarrow> bool" where
  "is_space c =
     ((9 \<le> c \<and> c \<le> 13) \<or> (28 \<le> c \<and> c \<le> 32) \<or> c = 133 \<or> c = 160 \<or> c = 5760 \<or>
      (8192 \<le> c \<and> c \<le> 8202) \<or> c = 8232 \<or> c = 8233 \<or> c = 8239 \<or> c = 8287 \<or>
      c = 12288)"

text \<open>\<open>s.strip()\<close>: white space removed at both ends.\<close>

definition strip :: "pystr \<Rightarrow> pystr" where
  "strip s = rev (dropWhile is_space (rev (dropWhile is_space s)))"

text \<open>\<open>s.startswith(p)\<close>.\<close>

fun startswith :: "pystr \<Rightarrow> pystr \<Rightarrow> bool" where
  "startswith [] s = True"
| "startswith (p # ps) [] = False"
| "startswith (p # ps) (c # cs) = (p = c \<and> startswith ps cs)"

text \<open>\<open>sub in s\<close>: \<open>sub\<close> occurs in \<open>s\<close> as a contiguous substring.\<close>

fun contains :: "pystr \<Rightarrow> pystr \<Rightarrow> bool" where
  "contains sub [] = (sub = [])"
| "contains sub (c # cs) = (startswith sub (c # cs) \<or> contains sub cs)"

text \<open>
  \<open>s.split(sep)\<close> for a non-empty separator (every call of the sources passes a
  non-empty literal; Python raises \<open>ValueError\<close> on an empty one): the string is scanned
  from the left, the piece read so far is closed at each occurrence of the separator and
  the scan goes on behind it. \<open>cur\<close> is the piece read so far.
\<close>

function split_from :: "pystr \<Rightarrow> pystr \<Rightarrow> pystr \<Rightarrow> pystr list" where
  "split_from sep cur [] = [cur]"
| "split_from sep cur (c # cs) =
     (if sep \<noteq> [] \<and> startswith sep (c # cs)
      then cur # split_from sep [] (drop (length sep) (c # cs))
      else split_from sep (cur @ [c]) cs)"
  by pat_completeness auto
termination
  by (relation "measure (\<lambda>(sep, cur, s). length s)") (auto simp: neq_Nil_conv)

definition split :: "pystr \<Rightarrow> pystr \<Rightarrow> pystr list" where
  "split s sep = split_from sep [] s"

text \<open>
  \<open>s.split()\<close> without a separator: the maximal runs of characters that are not white
  space; no empty piece is produced. \<open>cur\<close> is the run read so far.
\<close>

fun split_ws_from :: "pystr \<Rightarrow> pystr \<Rightarrow> pystr list" where
  "split_ws_from cur [] = (if cur = [] then [] else [cur])"
| "split_ws_from cur (c # cs) =
     (if is_space c
      then (if cur = [] then split_ws_from [] cs else cur # split_ws_from [] cs)
      else split_ws_from (cur @ [c]) cs)"

definition split_ws :: "pystr \<Rightarrow> pystr list" where
  "split_ws s = split_ws_from [] s"

text \<open>\<open>sep.join(xs)\<close>.\<close>

fun join :: "pystr \<Rightarrow> pystr list \<Rightarrow> pystr" where
  "join sep [] = []"
| "join sep [x] = x"
| "join sep (x # y # ys) = x @ sep @ join sep (y # ys)"

text \<open>
  \<open>s.replace(old, new)\<close>: every occurrence of \<open>old\<close>, found from the left and not
  overlapping, is replaced; an empty \<open>old\<close> matches before every character and at the end.
\<close>

function replace_from :: "pystr \<Rightarrow> pystr \<Rightarrow> pystr \<Rightarrow> pystr" where
  "replace_from old new [] = []"
| "replace_from old new (c # cs) =
     (if old \<noteq> [] \<and> startswith old (c # cs)
      then new @ replace_from old new (drop (length old) (c # cs))
      else c # replace_from old new cs)"
  by pat_completeness auto
termination
  by (relation "measure (\<lambda>(old, new, s). length s)") (auto simp: neq_Nil_conv)

definition replace :: "pystr \<Rightarrow> pystr \<Rightarrow> pystr \<Rightarrow> pystr" where
  "replace s old new =
     (if old = [] then new @ concat (map (\<lambda>c. c # new) s) else replace_from old new s)"

text \<open>
  \<open>s.lower()\<close> on the ASCII letters. The cased code points beyond ASCII are left as they
  are: their lower-case forms contain none of the ASCII characters that the sources
  look for in a lowered string.
\<close>

definition lower_char :: "nat \<Rightarrow> nat" where
  "lower_char c = (if 65 \<le> c \<and> c \<le> 90 then c + 32 else c)"

definition lower :: "pystr \<Rightarrow> pystr" where
  "lower s = map lower_char s"

text \<open>The decimal digits of \<open>str(n)\<close>, as an f-string prints a non-negative \<open>int\<close>.\<close>

fun digits :: "nat \<Rightarrow> pystr" where
  "digits n = (if n < 10 then [48 + n] else digits (n div 10) @ [48 + n mod 10])"

declare digits.simps [simp del]

section \<open>Paths\<close>

text \<open>\<open>os.path.basename\<close> (POSIX): what follows the last slash.\<close>

definition basename :: "pystr \<Rightarrow> pystr" where
  "basename p = rev (takeWhile (\<lambda>c. c \<noteq> 47) (rev p))"

text \<open>\<open>name.rfind('.')\<close>: the index of the last dot, \<open>None\<close> for Python's \<open>-1\<close>.\<close>

definition rfind_dot :: "pystr \<Rightarrow> nat option" where
  "rfind_dot name =
     (if 46 \<in> set name
      then Some (length name - 1 - length (takeWhile (\<lambda>c. c \<noteq> 46) (rev name)))
      else None)"

text \<open>
  \<open>Path(filename).stem\<close> of a name without a slash, as \<open>pathlib\<close> computes it up to
  Python 3.13: the name up to its last dot, when that dot is neither the first nor the
  last character; the name \<open>.\<close> is the empty path.
\<close>

definition stem :: "pystr \<Rightarrow> pystr" where
  "stem filename =
     (let name = (if filename = [46] then [] else filename) in
      case rfind_dot name of
        None \<Rightarrow> name
      | Some i \<Rightarrow> if 0 < i \<and> i < length name - 1 then take i name else name)"

section \<open>The upload pipeline\<close>

text \<open>
  An exception with its message. What the services and the PDF library answer is an
  input of a run: an exception (\<open>Inl\<close>) or a value (\<open>Inr\<close>).
\<close>

datatype exn = Exn pystr

text \<open>
  \<open>PdfReader(path)\<close> raises or gives the pages; \<open>page.extract_text()\<close> raises, or
  returns \<open>None\<close> or a string.
\<close>

type_synonym page = "exn + pystr option"
type_synonym pdf = "exn + page list"

text \<open>The environment of one run of \<open>UploadThread.run\<close>.\<close>

record env =
  file_path :: pystr
  AWS_BUCKET_NAME :: "pystr option"
  AWS_EXTRACT_BUCKET :: "pystr option"
  bucket_objects :: "(pystr \<times> pystr) list"
  list_objects_error :: "exn option"
  upload_file :: "exn + unit"
  PdfReader :: pdf
  put_object :: "exn + unit"

text \<open>
  \<open>bucket_objects\<close> are the objects of the destination bucket, key and body, in the
  order in which the service lists them. \<open>s3.list_objects_v2(Bucket, Prefix)\<close> raises
  (credentials, network, a missing permission to list) or answers with the keys that
  start with the prefix; the answer has no \<open>Contents\<close> when there is none. The service
  lists keys in ascending order, so a key equal to the prefix is on the first page of the
  answer; the pages are not modelled.
\<close>

definition list_objects_v2 :: "env \<Rightarrow> pystr \<Rightarrow> exn + pystr list option" where
  "list_objects_v2 E prefix =
     (case list_objects_error E of
        Some e \<Rightarrow> Inl e
      | None \<Rightarrow>
          (let keys = filter (startswith prefix) (map fst (bucket_objects E)) in
           Inr (if keys = [] then None else Some keys)))"

text \<open>
  The progress messages, by kind and with the values their f-strings print, and what a
  run does that can be seen from outside, in order.
\<close>

datatype message =
    AlreadyExists pystr "pystr option"
  | Uploaded pystr "pystr option"
  | ExtractionFailed exn
  | ExtractStored "pystr option" pystr
  | StoreFailed exn
  | ThreadError exn
  | UploadedApp pystr
  | ExtractSaved
  | ErrorApp exn

datatype event =
    ListObjects "pystr option" pystr
  | UploadFile pystr "pystr option" pystr
  | OpenPdf pystr
  | PutObject "pystr option" pystr pystr
  | Progress message
  | ExtractedTextSignal pystr pystr
  | ExtractedText pystr

text \<open>The truth value of an environment variable: unset and empty are false.\<close>

definition truthy :: "pystr option \<Rightarrow> bool" where
  "truthy v = (case v of None \<Rightarrow> False | Some s \<Rightarrow> s \<noteq> [])"

text \<open>\<open>page.extract_text() or ""\<close>.\<close>

definition or_empty :: "pystr option \<Rightarrow> pystr" where
  "or_empty t = (case t of None \<Rightarrow> [] | Some s \<Rightarrow> s)"

definition blank_line :: pystr where
  "blank_line = [10, 10]"

text \<open>
  The page loop of both \<open>UploadThread.run\<close>:
  \<open>for p in reader.pages: text += (p.extract_text() or "") + "\n\n"\<close>,
  from the text accumulated so far; a page that raises ends the loop with the exception.
\<close>

fun extract_pages :: "pystr \<Rightarrow> page list \<Rightarrow> exn + pystr" where
  "extract_pages text [] = Inr text"
| "extract_pages text (p # ps) =
     (case p of
        Inl e \<Rightarrow> Inl e
      | Inr page_text \<Rightarrow> extract_pages (text @ or_empty page_text @ blank_line) ps)"

text \<open>\<open>text = ""\<close>, the reader is opened, the pages are walked.\<close>

definition read_pdf :: "pdf \<Rightarrow> exn + pystr" where
  "read_pdf d = (case d of Inl e \<Rightarrow> Inl e | Inr pages \<Rightarrow> extract_pages [] pages)"

text \<open>
  The duplicate check of \<open>FINALBOT/main.py\<close>:
  \<open>for obj in resp['Contents']: if obj['Key'] == filename: already = True; break\<close>.
\<close>

fun key_listed :: "pystr \<Rightarrow> pystr list \<Rightarrow> bool" where
  "key_listed filename [] = False"
| "key_listed filename (k # ks) = (if k = filename then True else key_listed filename ks)"

text \<open>
  \<open>already\<close>: true only when the listing call returned, its answer has \<open>Contents\<close> and a
  listed key equals the file name; an exception of the call is swallowed.
\<close>

definition already :: "env \<Rightarrow> bool" where
  "already E =
     (case list_objects_v2 E (basename (file_path E)) of
        Inl e \<Rightarrow> False
      | Inr None \<Rightarrow> False
      | Inr (Some keys) \<Rightarrow> key_listed (basename (file_path E)) keys)"

text \<open>
  The extraction step of \<open>FINALBOT/main.py\<close>, with its own \<open>try\<close>: the messages it
  emits and the text it leaves in \<open>text\<close>.
\<close>

definition extraction_step :: "env \<Rightarrow> event list \<times> pystr" where
  "extraction_step E =
     (case read_pdf (PdfReader E) of
        Inl e \<Rightarrow> ([OpenPdf (file_path E), Progress (ExtractionFailed e)], [])
      | Inr text \<Rightarrow> ([OpenPdf (file_path E)], text))"

text \<open>The key of the stored text: \<open>f"{Path(filename).stem}.txt"\<close>.\<close>

definition txt_key :: "pystr \<Rightarrow> pystr" where
  "txt_key filename = stem filename @ asc ''.txt''"

text \<open>The secondary storage step of \<open>FINALBOT/main.py\<close> and the notification.\<close>

definition storage_step :: "env \<Rightarrow> pystr \<Rightarrow> event list" where
  "storage_step E text =
     (if text \<noteq> [] \<and> truthy (AWS_EXTRACT_BUCKET E)
      then (let key = txt_key (basename (file_path E)) in
            case put_object E of
              Inr u \<Rightarrow>
                [PutObject (AWS_EXTRACT_BUCKET E) key text,
                 Progress (ExtractStored (AWS_EXTRACT_BUCKET E) key),
                 ExtractedTextSignal text key]
            | Inl e \<Rightarrow>
                [PutObject (AWS_EXTRACT_BUCKET E) key text,
                 Progress (StoreFailed e),
                 ExtractedTextSignal text []])
      else [ExtractedTextSignal text []])"

text \<open>What follows the upload in \<open>FINALBOT/main.py\<close>: extraction, then storage.\<close>

definition extract_and_store :: "env \<Rightarrow> event list" where
  "extract_and_store E = (case extraction_step E of (evs, text) \<Rightarrow> evs @ storage_step E text)"

text \<open>
  \<open>UploadThread.run\<close> of \<open>FINALBOT/main.py\<close>. The upload call has no \<open>try\<close> of its own:
  its exception reaches the handler around the whole body, which reports it and ends
  the run.
\<close>

definition run_main :: "env \<Rightarrow> event list" where
  "run_main E =
     (let filename = basename (file_path E) in
      ListObjects (AWS_BUCKET_NAME E) filename #
      (if already E
       then Progress (AlreadyExists filename (AWS_BUCKET_NAME E)) # extract_and_store E
       else (case upload_file E of
               Inl e \<Rightarrow>
                 [UploadFile (file_path E) (AWS_BUCKET_NAME E) filename, Progress (ThreadError e)]
             | Inr u \<Rightarrow>
                 UploadFile (file_path E) (AWS_BUCKET_NAME E) filename #
                 Progress (Uploaded filename (AWS_BUCKET_NAME E)) # extract_and_store E)))"

text \<open>
  \<open>UploadThread.run\<close> of \<open>app.py\<close>: one \<open>try\<close> around the whole body; the text is
  extracted first, the upload and the storage follow when a bucket is configured, and the
  signal carries the text alone.
\<close>

definition app_after_upload :: "env \<Rightarrow> pystr \<Rightarrow> event list" where
  "app_after_upload E text =
     (if text \<noteq> [] \<and> truthy (AWS_EXTRACT_BUCKET E)
      then (let key = txt_key (basename (file_path E)) in
            case put_object E of
              Inl e \<Rightarrow> [PutObject (AWS_EXTRACT_BUCKET E) key text, Progress (ErrorApp e)]
            | Inr u \<Rightarrow>
                [PutObject (AWS_EXTRACT_BUCKET E) key text, Progress ExtractSaved,
                 ExtractedText text])
      else [ExtractedText text])"

definition run_app :: "env \<Rightarrow> event list" where
  "run_app E =
     (let filename = basename (file_path E) in
      OpenPdf (file_path E) #
      (case read_pdf (PdfReader E) of
         Inl e \<Rightarrow> [Progress (ErrorApp e)]
       | Inr text \<Rightarrow>
           if truthy (AWS_BUCKET_NAME E)
           then (case upload_file E of
                   Inl e \<Rightarrow>
                     [UploadFile (file_path E) (AWS_BUCKET_NAME E) filename,
                      Progress (ErrorApp e)]
                 | Inr u \<Rightarrow>
                     UploadFile (file_path E) (AWS_BUCKET_NAME E) filename #
                     Progress (UploadedApp filename) # app_after_upload E text)
           else [ExtractedText text]))"

text \<open>
  \<open>lambda_handler\<close> of \<open>extractdata.py\<close>: the object is fetched and read as a PDF, the
  page texts are concatenated with nothing between them and stored under the key with
  \<open>.pdf\<close> replaced by \<open>.txt\<close>; the handler of the \<open>try\<close> prints the exception and
  raises it again.
\<close>

record lambda_env =
  object_key :: pystr
  get_object :: "exn + unit"
  lambda_PdfReader :: pdf
  lambda_put_object :: "exn + unit"

record lambda_result =
  statusCode :: nat
  output_key :: pystr
  stored_text :: pystr

fun lambda_pages :: "pystr \<Rightarrow> page list \<Rightarrow> exn + pystr" where
  "lambda_pages extracted_text [] = Inr extracted_text"
| "lambda_pages extracted_text (p # ps) =
     (case p of
        Inl e \<Rightarrow> Inl e
      | Inr page_text \<Rightarrow> lambda_pages (extracted_text @ or_empty page_text) ps)"

definition lambda_read_pdf :: "pdf \<Rightarrow> exn + pystr" where
  "lambda_read_pdf d = (case d of Inl e \<Rightarrow> Inl e | Inr pages \<Rightarrow> lambda_pages [] pages)"

definition lambda_handler :: "lambda_env \<Rightarrow> exn + lambda_result" where
  "lambda_handler L =
     (case get_object L of
        Inl e \<Rightarrow> Inl e
      | Inr u \<Rightarrow>
          (case lambda_read_pdf (lambda_PdfReader L) of
             Inl e \<Rightarrow> Inl e
           | Inr extracted_text \<Rightarrow>
               (case lambda_put_object L of
                  Inl e \<Rightarrow> Inl e
                | Inr v \<Rightarrow>
                    Inr \<lparr>statusCode = 200,
                         output_key = replace (object_key L) (asc ''.pdf'') (asc ''.txt''),
                         stored_text = extracted_text\<rparr>)))"

text \<open>
  The scenario of the specification: \<open>notes.pdf\<close>, two pages with the texts \<open>Hello\<close>
  and the empty string, no object of that name in the bucket, every call succeeds.
\<close>

definition notes_env :: env where
  "notes_env =
     \<lparr>file_path = asc ''/home/user/notes.pdf'',
      AWS_BUCKET_NAME = Some (asc ''docs''),
      AWS_EXTRACT_BUCKET = Some (asc ''extracts''),
      bucket_objects = [],
      list_objects_error = None,
      upload_file = Inr (),
      PdfReader = Inr [Inr (Some (asc ''Hello'')), Inr (Some [])],
      put_object = Inr ()\<rparr>"

section \<open>What a run did\<close>

text \<open>The calls and signals of one kind in a trace, in order.\<close>

fun is_upload :: "event \<Rightarrow> bool" where
  "is_upload (UploadFile path bucket key) = True"
| "is_upload ev = False"

fun is_put :: "event \<Rightarrow> bool" where
  "is_put (PutObject bucket key body) = True"
| "is_put ev = False"

fun is_open_pdf :: "event \<Rightarrow> bool" where
  "is_open_pdf (OpenPdf path) = True"
| "is_open_pdf ev = False"

fun is_notification :: "event \<Rightarrow> bool" where
  "is_notification (ExtractedTextSignal t key) = True"
| "is_notification (ExtractedText t) = True"
| "is_notification ev = False"

definition uploads :: "event list \<Rightarrow> event list" where
  "uploads evs = filter is_upload evs"

definition put_attempts :: "event list \<Rightarrow> event list" where
  "put_attempts evs = filter is_put evs"

definition extractions :: "event list \<Rightarrow> event list" where
  "extractions evs = filter is_open_pdf evs"

definition notifications :: "event list \<Rightarrow> event list" where
  "notifications evs = filter is_notification evs"

section \<open>Answer formatting\<close>

text \<open>
  \<open>re.split(r'(?<=[.!?]) +', text)\<close>: the text is cut at every run of spaces (code
  point 32 only) that directly follows a full stop, an exclamation mark or a question
  mark; the run is dropped, the mark stays with the piece before it. \<open>after\<close> tells
  whether the character just read is such a mark, \<open>cur\<close> is the piece read so far.
\<close>

definition is_sentence_end :: "nat \<Rightarrow> bool" where
  "is_sentence_end c = (c = 46 \<or> c = 33 \<or> c = 63)"

function re_split_from :: "bool \<Rightarrow> pystr \<Rightarrow> pystr \<Rightarrow> pystr list" where
  "re_split_from after cur [] = [cur]"
| "re_split_from after cur (c # cs) =
     (if c = 32 \<and> after
      then cur # re_split_from False [] (dropWhile (\<lambda>x. x = 32) cs)
      else re_split_from (is_sentence_end c) (cur @ [c]) cs)"
  by pat_completeness auto
termination
  by (relation "measure (\<lambda>(after, cur, s). length s)")
     (auto simp: less_Suc_eq_le length_dropWhile_le)

definition re_split_sentences :: "pystr \<Rightarrow> pystr list" where
  "re_split_sentences s = re_split_from False [] s"

text \<open>\<open>[p.strip() for p in text.split(sep) if p.strip()]\<close>.\<close>

definition segments :: "pystr \<Rightarrow> pystr \<Rightarrow> pystr list" where
  "segments sep s = map strip (filter (\<lambda>p. strip p \<noteq> []) (split s sep))"

text \<open>\<open>[s.strip() for s in sentences if s.strip()]\<close>.\<close>

definition sentences :: "pystr \<Rightarrow> pystr list" where
  "sentences s = map strip (filter (\<lambda>p. strip p \<noteq> []) (re_split_sentences s))"

text \<open>
  \<open>parts\<close>: the pieces between blank lines when the text has a blank line, the pieces
  between newlines when it has none.
\<close>

definition parts :: "pystr \<Rightarrow> pystr list" where
  "parts s = (if contains blank_line s then segments blank_line s else segments [10] s)"

text \<open>\<open>lines\<close>: the parts when there are at least three, the sentences otherwise.\<close>

definition answer_lines :: "pystr \<Rightarrow> pystr list" where
  "answer_lines s = (if 3 \<le> length (parts s) then parts s else sentences s)"

text \<open>
  \<open>for i, ln in enumerate(lines, start=1): numbered.append(f"{i}. {ln}")\<close>, from the
  list built so far and the next number.
\<close>

fun number_lines :: "pystr list \<Rightarrow> nat \<Rightarrow> pystr list \<Rightarrow> pystr list" where
  "number_lines numbered i [] = numbered"
| "number_lines numbered i (ln # lns) =
     number_lines (numbered @ [digits i @ asc ''. '' @ ln]) (Suc i) lns"

text \<open>The fixed texts; the emoji are the code points 9888 65039, 128216 and 128270.\<close>

definition no_response :: pystr where
  "no_response = [9888, 65039] @ asc '' No response from model.''"

definition example_note :: pystr where
  "example_note =
     [10, 10, 128216] @ asc '' Example:'' @ [10] @ asc ''Refer to the example given above.''"

definition source_footer :: pystr where
  "source_footer =
     [10, 10, 128270] @
     asc '' Source: Answer generated using the uploaded text and Ollama model.''"

text \<open>The condition of the example note.\<close>

definition mentions_example :: "pystr \<Rightarrow> bool" where
  "mentions_example s =
     (contains (asc ''example'') (lower s) \<or> contains (asc ''e.g.'') (lower s))"

text \<open>\<open>format_ollama_answer\<close> of \<open>FINALBOT/main.py\<close>, on a string.\<close>

definition format_ollama_answer :: "pystr \<Rightarrow> pystr" where
  "format_ollama_answer raw_text =
     (if raw_text = [] then no_response
      else (let s = strip raw_text;
                out = join blank_line (number_lines [] 1 (answer_lines s));
                out = (if mentions_example s then out @ example_note else out)
            in out @ source_footer))"

text \<open>
  The formatting as the specification words it, to compare with: the reply is cut at
  blank lines; with three pieces or more these are numbered, with fewer the sentences
  are; the note is added when the reply contains the word \<open>example\<close>; the footer is
  always added.
\<close>

definition spec_format_answer :: "pystr \<Rightarrow> pystr" where
  "spec_format_answer raw_text =
     (let s = strip raw_text;
          lns = (if 3 \<le> length (segments blank_line s) then segments blank_line s
                 else sentences s)
      in join blank_line (number_lines [] 1 lns) @
         (if contains (asc ''example'') (lower s) then example_note else []) @
         source_footer)"

section \<open>Replies of the inference server\<close>

text \<open>
  A value of \<open>json.loads\<close>; an object is a Python \<open>dict\<close>, here the list of its
  items, each key once. A number is kept as its literal.
\<close>

datatype json =
    JNull
  | JBool bool
  | JNum pystr
  | JStr pystr
  | JArr "json list"
  | JObj "(pystr \<times> json) list"

text \<open>
  An HTTP response: its status, its body as text, and what \<open>resp.json()\<close> gives for
  that body, \<open>None\<close> when it raises.
\<close>

record response =
  status_code :: nat
  body_text :: pystr
  body_json :: "json option"

text \<open>\<open>d.get(key, default)\<close> on a dict.\<close>

definition dict_get :: "(pystr \<times> json) list \<Rightarrow> pystr \<Rightarrow> json \<Rightarrow> json" where
  "dict_get d key dflt = (case map_of d key of None \<Rightarrow> dflt | Some v \<Rightarrow> v)"

text \<open>
  Operations that raise on the wrong kind of value, \<open>None\<close> for the exception:
  \<open>len(v)\<close> (\<open>TypeError\<close> unless a string, list or dict), \<open>v[0]\<close> (on a dict a
  \<open>KeyError\<close>, the keys being strings) and \<open>v.get(key, default)\<close>
  (\<open>AttributeError\<close> unless a dict).
\<close>

fun py_len :: "json \<Rightarrow> nat option" where
  "py_len (JStr s) = Some (length s)"
| "py_len (JArr xs) = Some (length xs)"
| "py_len (JObj d) = Some (length d)"
| "py_len v = None"

fun first_item :: "json \<Rightarrow> json option" where
  "first_item (JArr (x # xs)) = Some x"
| "first_item (JStr (c # cs)) = Some (JStr [c])"
| "first_item v = None"

fun attr_get :: "json \<Rightarrow> pystr \<Rightarrow> json \<Rightarrow> json option" where
  "attr_get (JObj d) key dflt = Some (dict_get d key dflt)"
| "attr_get v key dflt = None"

text \<open>\<open>data["choices"][0].get("message", {}).get("content", "")\<close>.\<close>

definition choices_content :: "json \<Rightarrow> json option" where
  "choices_content choices =
     (case first_item choices of
        None \<Rightarrow> None
      | Some c \<Rightarrow>
          (case attr_get c (asc ''message'') (JObj []) of
             None \<Rightarrow> None
           | Some m \<Rightarrow> attr_get m (asc ''content'') (JStr [])))"

text \<open>
  What \<open>assistant_reply\<close> is bound to: a value taken from the response (the body as text
  is the string \<open>JStr (body_text resp)\<close>), or \<open>json.dumps(data)\<close>, or \<open>str(data)\<close>.
\<close>

datatype assistant_reply = Value json | Dumps json | Str json

text \<open>
  The reply of \<open>TranslatorPopup.ask_ollama\<close> and \<open>DocumentQAPopup.ask_question\<close>. An
  exception anywhere in the \<open>try\<close> (the body is not JSON, \<open>len\<close> of the choices raises,
  the first choice or its message is not a dict) gives the body as text.
\<close>

definition is_dict :: "json \<Rightarrow> bool" where
  "is_dict v = (case v of JObj d \<Rightarrow> True | other \<Rightarrow> False)"

text \<open>
  \<open>data["message"]\<close> under the test
  \<open>"message" in data and isinstance(data["message"], dict)\<close>.
\<close>

definition message_of :: "(pystr \<times> json) list \<Rightarrow> (pystr \<times> json) list option" where
  "message_of d =
     (case map_of d (asc ''message'') of
        Some (JObj m) \<Rightarrow> Some m
      | other \<Rightarrow> None)"

definition extract_reply :: "response \<Rightarrow> assistant_reply" where
  "extract_reply resp =
     (case body_json resp of
        None \<Rightarrow> Value (JStr (body_text resp))
      | Some (JObj d) \<Rightarrow>
          (case message_of d of
             Some m \<Rightarrow> Value (dict_get m (asc ''content'') (JStr []))
           | None \<Rightarrow>
               (case map_of d (asc ''choices'') of
                  None \<Rightarrow> Dumps (JObj d)
                | Some choices \<Rightarrow>
                    (case py_len choices of
                       None \<Rightarrow> Value (JStr (body_text resp))
                     | Some n \<Rightarrow>
                         if 0 < n
                         then (case choices_content choices of
                                 None \<Rightarrow> Value (JStr (body_text resp))
                               | Some v \<Rightarrow> Value v)
                         else Dumps (JObj d))))
      | Some data \<Rightarrow> Str data)"

text \<open>
  The extraction as the specification words it, to compare with: the first of
  \<open>message.content\<close> and \<open>choices[0].message.content\<close> that yields a value, and the
  body as text when neither does.
\<close>

definition field :: "json \<Rightarrow> pystr \<Rightarrow> json option" where
  "field v key = (case v of JObj d \<Rightarrow> map_of d key | other \<Rightarrow> None)"

definition spec_message_content :: "json \<Rightarrow> json option" where
  "spec_message_content data =
     (case field data (asc ''message'') of
        None \<Rightarrow> None
      | Some m \<Rightarrow> field m (asc ''content''))"

definition spec_choices_content :: "json \<Rightarrow> json option" where
  "spec_choices_content data =
     (case field data (asc ''choices'') of
        Some (JArr (c # cs)) \<Rightarrow> spec_message_content c
      | other \<Rightarrow> None)"

definition spec_extract_reply :: "response \<Rightarrow> assistant_reply" where
  "spec_extract_reply resp =
     (case body_json resp of
        None \<Rightarrow> Value (JStr (body_text resp))
      | Some data \<Rightarrow>
          (case spec_message_content data of
             Some v \<Rightarrow> Value v
           | None \<Rightarrow>
               (case spec_choices_content data of
                  Some v \<Rightarrow> Value v
                | None \<Rightarrow> Value (JStr (body_text resp)))))"

section \<open>Clipboard polling\<close>

text \<open>
  The state of \<open>TranslatorPopup\<close> that a tick reads and writes, what a tick makes the
  window do, and \<open>check_clipboard\<close> of \<open>FINALBOT/main.py\<close>; \<open>paste\<close> is what
  \<open>pyperclip.paste()\<close> gives at this tick, or the exception of the import or the call.
\<close>

record popup =
  last_clip :: pystr
  ollama_checked :: bool

datatype action = Translate pystr | Display pystr

definition check_clipboard :: "popup \<Rightarrow> exn + pystr \<Rightarrow> popup \<times> action list" where
  "check_clipboard st paste =
     (case paste of
        Inl e \<Rightarrow> (st, [])
      | Inr raw \<Rightarrow>
          (let s = strip raw in
           if s = [] then (st, [])
           else if s = last_clip st then (st, [])
           else (st\<lparr>last_clip := s\<rparr>,
                 [if \<not> ollama_checked st then Translate s else Display s])))"

text \<open>
  \<open>AIAssistant.check_clipboard\<close> of \<open>app.py\<close>, on its \<open>last_clip\<close>: nothing without
  \<open>pyperclip\<close>; otherwise a new text that is not empty is recorded and translated.
\<close>

definition app_check_clipboard :: "bool \<Rightarrow> pystr \<Rightarrow> exn + pystr \<Rightarrow> pystr \<times> action list" where
  "app_check_clipboard HAS_PYPERCLIP clip paste =
     (if \<not> HAS_PYPERCLIP then (clip, [])
      else (case paste of
              Inl e \<Rightarrow> (clip, [])
            | Inr raw \<Rightarrow>
                (let s = strip raw in
                 if s \<noteq> [] \<and> s \<noteq> clip then (s, [Translate s]) else (clip, []))))"

text \<open>The timer: one call per tick, each on the state the tick before left.\<close>

fun poll :: "popup \<Rightarrow> (exn + pystr) list \<Rightarrow> popup \<times> action list list" where
  "poll st [] = (st, [])"
| "poll st (p # ps) =
     (case check_clipboard st p of
        (st', acts) \<Rightarrow> (case poll st' ps of (st'', rest) \<Rightarrow> (st'', acts # rest)))"

text \<open>What a tick read: the stripped text, empty when the read raised.\<close>

definition read_value :: "exn + pystr \<Rightarrow> pystr" where
  "read_value paste = (case paste of Inl e \<Rightarrow> [] | Inr raw \<Rightarrow> strip raw)"

text \<open>The last value of a list of reads that is not empty, \<open>init\<close> when there is none.\<close>

fun last_text :: "pystr \<Rightarrow> pystr list \<Rightarrow> pystr" where
  "last_text init [] = init"
| "last_text init (v # vs) = last_text (if v = [] then init else v) vs"

section \<open>The web server\<close>

text \<open>
  The globals of \<open>app.py\<close> that the handlers use: the last answer and whether the speech
  client was created.
\<close>

record server =
  latest_answer :: pystr
  polly_client :: bool

text \<open>The calls a handler makes to the inference server and the speech service.\<close>

datatype call =
    Generate pystr
  | DescribeVoices
  | SynthesizeSpeech pystr pystr pystr

text \<open>The prompt of \<open>get_ollama_response\<close>.\<close>

definition prompt :: "pystr \<Rightarrow> pystr \<Rightarrow> pystr \<Rightarrow> pystr" where
  "prompt question ctx language =
     (if ctx \<noteq> []
      then asc ''You are an expert document analyst. Answer based ONLY on the document below.'' @
           [10, 10] @ asc ''DOCUMENT:'' @ [10] @ ctx @ [10, 10] @
           asc ''USER QUESTION: '' @ question @ [10, 10] @
           asc ''Provide a detailed answer in '' @ language @
           asc '' with clear points. If the answer isn'' @ [39] @
           asc ''t in the document, say so.''
      else asc ''Answer this question clearly in '' @ language @ asc '':'' @ [10, 10] @
           question @ [10, 10] @ asc ''Provide a comprehensive answer with examples.'')"

text \<open>
  The normalisation of the answer:
  \<open>answer.strip()\<close>, \<open>.replace("\\n", " ").replace("\n", " ")\<close> (the two characters
  backslash and n, then the newline) and \<open>" ".join(answer.split())\<close>.
\<close>

definition normalize :: "pystr \<Rightarrow> pystr" where
  "normalize r =
     (let answer = strip r;
          answer = replace (replace answer [92, 110] [32]) [10] [32]
      in join [32] (split_ws answer))"

text \<open>
  \<open>get_ollama_response\<close>: \<open>post\<close> is what \<open>requests.post\<close> gives, an exception or a
  response. The result is the answer (\<open>None\<close> as in Python), the globals after the call
  and the call made. An exception in the \<open>try\<close> (the body is not JSON or not an object,
  its \<open>response\<close> is not a string) and a status other than 200 give \<open>None\<close> and leave
  the last answer as it was.
\<close>

definition get_ollama_response ::
  "server \<Rightarrow> exn + response \<Rightarrow> pystr \<Rightarrow> pystr \<Rightarrow> pystr \<Rightarrow> pystr option \<times> server \<times> call list" where
  "get_ollama_response st post question ctx language =
     (case post of
        Inl e \<Rightarrow> (None, st, [Generate (prompt question ctx language)])
      | Inr resp \<Rightarrow>
          if status_code resp = 200
          then (case body_json resp of
                  Some (JObj d) \<Rightarrow>
                    (case dict_get d (asc ''response'') (JStr []) of
                       JStr r \<Rightarrow>
                         (let answer = normalize r in
                          (Some answer, st\<lparr>latest_answer := answer\<rparr>,
                           [Generate (prompt question ctx language)]))
                     | other \<Rightarrow> (None, st, [Generate (prompt question ctx language)]))
                | other \<Rightarrow> (None, st, [Generate (prompt question ctx language)]))
          else (None, st, [Generate (prompt question ctx language)]))"

text \<open>The body of a request to \<open>/api/ask-stream\<close>, with the defaults of its fields.\<close>

record ask =
  question :: pystr
  context' :: pystr
  language :: pystr

text \<open>
  An HTTP reply: a plain one with its status and text, a streamed text by its chunks, or
  a streamed audio, by the text it speaks.
\<close>

datatype http_reply = Plain nat pystr | TextStream "pystr list" | AudioStream pystr

text \<open>
  The generator of \<open>stream_text\<close>:
  \<open>for i, word in enumerate(words): yield word + (" " if i < len(words) - 1 else "")\<close>.
\<close>

fun chunks :: "nat \<Rightarrow> nat \<Rightarrow> pystr list \<Rightarrow> pystr list" where
  "chunks n i [] = []"
| "chunks n i (word # ws) = (word @ (if i < n - 1 then [32] else [])) # chunks n (Suc i) ws"

definition generate :: "pystr \<Rightarrow> pystr list" where
  "generate answer = (let ws = split answer [32] in chunks (length ws) 0 ws)"

text \<open>\<open>stream_text\<close>, the handler of \<open>POST /api/ask-stream\<close>.\<close>

definition stream_text :: "server \<Rightarrow> ask \<Rightarrow> exn + response \<Rightarrow> http_reply \<times> server \<times> call list" where
  "stream_text st data post =
     (let q = strip (question data) in
      if q = [] then (Plain 400 (asc ''Please enter a question''), st, [])
      else (case get_ollama_response st post q (context' data) (language data) of
              (None, st', calls) \<Rightarrow> (Plain 500 (asc ''Failed to get response''), st', calls)
            | (Some answer, st', calls) \<Rightarrow>
                if answer = [] then (Plain 500 (asc ''Failed to get response''), st', calls)
                else (TextStream (generate answer), st', calls)))"

text \<open>
  \<open>get_best_voice\<close>: the neural voices, each with its id and language code, or the
  exception of the call; the first voice of \<open>en-IN\<close>, else the first voice, else none.
\<close>

fun first_en_IN :: "(pystr \<times> pystr) list \<Rightarrow> pystr option" where
  "first_en_IN [] = None"
| "first_en_IN (voice # voices) =
     (if snd voice = asc ''en-IN'' then Some (fst voice) else first_en_IN voices)"

definition get_best_voice :: "server \<Rightarrow> exn + (pystr \<times> pystr) list \<Rightarrow> (pystr \<times> pystr) option" where
  "get_best_voice st describe_voices =
     (if \<not> polly_client st then None
      else (case describe_voices of
              Inl e \<Rightarrow> None
            | Inr voices \<Rightarrow>
                (case first_en_IN voices of
                   Some v \<Rightarrow> Some (v, asc ''neural'')
                 | None \<Rightarrow>
                     (case voices of
                        [] \<Rightarrow> None
                      | voice # rest \<Rightarrow> Some (fst voice, asc ''neural'')))))"

text \<open>
  \<open>stream_audio\<close>, the handler of \<open>POST /api/ask-audio-stream\<close>; \<open>synthesize_speech\<close>
  is whether the speech call returns.
\<close>

definition stream_audio ::
  "server \<Rightarrow> pystr \<Rightarrow> exn + response \<Rightarrow> exn + (pystr \<times> pystr) list \<Rightarrow> exn + unit \<Rightarrow>
   http_reply \<times> server \<times> call list" where
  "stream_audio st question_field post describe_voices synthesize_speech =
     (let q = strip question_field in
      if q = [] \<or> \<not> polly_client st
      then (Plain 500 (asc ''Audio not available''), st, [])
      else (case (if latest_answer st \<noteq> [] then (Some (latest_answer st), st, [])
                  else get_ollama_response st post q [] (asc ''english'')) of
              (None, st', calls) \<Rightarrow> (Plain 500 (asc ''Failed to generate audio''), st', calls)
            | (Some answer, st', calls) \<Rightarrow>
                if answer = []
                then (Plain 500 (asc ''Failed to generate audio''), st', calls)
                else (case get_best_voice st' describe_voices of
                        None \<Rightarrow>
                          (Plain 500 (asc ''No voice available''), st', calls @ [DescribeVoices])
                      | Some (voice_id, engine) \<Rightarrow>
                          if voice_id = []
                          then (Plain 500 (asc ''No voice available''), st',
                                calls @ [DescribeVoices])
                          else (case synthesize_speech of
                                  Inl e \<Rightarrow>
                                    (Plain 500 (asc ''Audio generation failed''), st',
                                     calls @
                                     [DescribeVoices, SynthesizeSpeech answer voice_id engine])
                                | Inr u \<Rightarrow>
                                    (AudioStream answer, st',
                                     calls @
                                     [DescribeVoices,
                                      SynthesizeSpeech answer voice_id engine])))))"

text \<open>The calls of one kind.\<close>

fun is_generate :: "call \<Rightarrow> bool" where
  "is_generate (Generate p) = True"
| "is_generate c = False"

fun is_synthesize :: "call \<Rightarrow> bool" where
  "is_synthesize (SynthesizeSpeech t v e) = True"
| "is_synthesize c = False"


section \<open>Properties of the extraction step\<close>

text \<open>The definitions that evaluate a run of the pipeline on a given environment.\<close>

lemmas pipeline_defs =
  notes_env_def run_main_def run_app_def already_def list_objects_v2_def basename_def asc_def
  extract_and_store_def extraction_step_def storage_step_def app_after_upload_def read_pdf_def
  or_empty_def blank_line_def txt_key_def stem_def rfind_dot_def truthy_def Let_def
  uploads_def put_attempts_def extractions_def notifications_def
  lambda_handler_def lambda_read_pdf_def



section \<open>Traces of the pipeline\<close>

lemma key_listed_iff: "key_listed f ks = (f \<in> set ks)"
  by (induction ks) auto

lemma startswith_refl: "startswith s s"
  by (induction s) auto

lemma already_iff:
  "already E = (list_objects_error E = None \<and> basename (file_path E) \<in> fst ` set (bucket_objects E))"
  by (auto simp: already_def list_objects_v2_def key_listed_iff startswith_refl Let_def filter_empty_conv
      split: option.splits sum.splits)

lemma uploads_extract_and_store: "uploads (extract_and_store E) = []"
  by (simp add: uploads_def extract_and_store_def extraction_step_def storage_step_def Let_def
      split: sum.splits prod.splits)

lemma extractions_extract_and_store: "extractions (extract_and_store E) = [OpenPdf (file_path E)]"
  by (simp add: extractions_def extract_and_store_def extraction_step_def storage_step_def Let_def
      split: sum.splits prod.splits)


lemma put_attempts_extract_and_store:
  "put_attempts (extract_and_store E) =
     (if snd (extraction_step E) \<noteq> [] \<and> truthy (AWS_EXTRACT_BUCKET E)
      then [PutObject (AWS_EXTRACT_BUCKET E) (txt_key (basename (file_path E)))
              (snd (extraction_step E))]
      else [])"
  by (simp add: put_attempts_def extract_and_store_def extraction_step_def storage_step_def Let_def
      split: sum.splits prod.splits)

lemma notifications_extract_and_store:
  "notifications (extract_and_store E) =
     [ExtractedTextSignal (snd (extraction_step E))
        (if snd (extraction_step E) \<noteq> [] \<and> truthy (AWS_EXTRACT_BUCKET E) \<and>
            put_object E = Inr ()
         then txt_key (basename (file_path E)) else [])]"
  by (simp add: notifications_def extract_and_store_def extraction_step_def storage_step_def Let_def
      split: sum.splits prod.splits)

section \<open>Properties of the storage gateway\<close>

text \<open>
  Claim C3, amended. The duplicate test holds exactly when the listing call returns and
  a listed key of the destination bucket equals the file's name: it compares keys, never
  bodies. When it holds, the run emits the skip message, makes no upload call and goes on
  to extract text from the local file; when it does not hold (also when the listing call
  raises although such an object exists), the upload is attempted.
\<close>

theorem C3_duplicate_skips_upload:
  "(already E \<longleftrightarrow>
      list_objects_error E = None \<and> basename (file_path E) \<in> fst ` set (bucket_objects E)) \<and>
   (already E \<longrightarrow>
      run_main E =
        ListObjects (AWS_BUCKET_NAME E) (basename (file_path E)) #
        Progress (AlreadyExists (basename (file_path E)) (AWS_BUCKET_NAME E)) #
        extract_and_store E \<and>
      uploads (run_main E) = [] \<and>
      extractions (run_main E) = [OpenPdf (file_path E)]) \<and>
   (\<not> already E \<longrightarrow>
      uploads (run_main E) =
        [UploadFile (file_path E) (AWS_BUCKET_NAME E) (basename (file_path E))])"
proof (intro conjI impI)
  show "already E \<longleftrightarrow>
      list_objects_error E = None \<and> basename (file_path E) \<in> fst ` set (bucket_objects E)"
    by (rule already_iff)
next
  assume a: "already E"
  then show "run_main E =
        ListObjects (AWS_BUCKET_NAME E) (basename (file_path E)) #
        Progress (AlreadyExists (basename (file_path E)) (AWS_BUCKET_NAME E)) #
        extract_and_store E"
    by (simp add: run_main_def Let_def)
  from a have "uploads (run_main E) = uploads (extract_and_store E)"
    by (simp add: run_main_def Let_def uploads_def)
  then show "uploads (run_main E) = []"
    by (simp add: uploads_extract_and_store)
  from a have "extractions (run_main E) = extractions (extract_and_store E)"
    by (simp add: run_main_def Let_def extractions_def)
  then show "extractions (run_main E) = [OpenPdf (file_path E)]"
    by (simp add: extractions_extract_and_store)
next
  assume n: "\<not> already E"
  have u: "filter is_upload (extract_and_store E) = []"
    using uploads_extract_and_store [of E] by (simp add: uploads_def)
  from n show "uploads (run_main E) =
        [UploadFile (file_path E) (AWS_BUCKET_NAME E) (basename (file_path E))]"
    by (simp add: run_main_def Let_def uploads_def u split: sum.splits)
qed

text \<open>The theorem of C3 at the scenario, with and without an object named like the file.\<close>

theorem C3_witness:
  "already (notes_env\<lparr>bucket_objects := [(asc ''notes.pdf'', asc ''%PDF'')]\<rparr>) \<and>
   uploads (run_main (notes_env\<lparr>bucket_objects := [(asc ''notes.pdf'', asc ''%PDF'')]\<rparr>)) = [] \<and>
   extractions (run_main (notes_env\<lparr>bucket_objects := [(asc ''notes.pdf'', asc ''%PDF'')]\<rparr>)) =
     [OpenPdf (asc ''/home/user/notes.pdf'')] \<and>
   \<not> already notes_env \<and>
   uploads (run_main notes_env) =
     [UploadFile (asc ''/home/user/notes.pdf'') (Some (asc ''docs'')) (asc ''notes.pdf'')]"
proof -
  have a: "already (notes_env\<lparr>bucket_objects := [(asc ''notes.pdf'', asc ''%PDF'')]\<rparr>)"
    by (simp add: pipeline_defs)
  have n: "\<not> already notes_env"
    by (simp add: pipeline_defs)
  have p: "file_path (notes_env\<lparr>bucket_objects := [(asc ''notes.pdf'', asc ''%PDF'')]\<rparr>) =
      asc ''/home/user/notes.pdf''"
    by (simp add: notes_env_def)
  have q: "file_path notes_env = asc ''/home/user/notes.pdf'' \<and>
      AWS_BUCKET_NAME notes_env = Some (asc ''docs'') \<and>
      basename (asc ''/home/user/notes.pdf'') = asc ''notes.pdf''"
    by (simp add: pipeline_defs)
  from a C3_duplicate_skips_upload [of "notes_env\<lparr>bucket_objects := [(asc ''notes.pdf'', asc ''%PDF'')]\<rparr>"]
  have r1: "uploads (run_main (notes_env\<lparr>bucket_objects := [(asc ''notes.pdf'', asc ''%PDF'')]\<rparr>)) = [] \<and>
      extractions (run_main (notes_env\<lparr>bucket_objects := [(asc ''notes.pdf'', asc ''%PDF'')]\<rparr>)) =
        [OpenPdf (file_path (notes_env\<lparr>bucket_objects := [(asc ''notes.pdf'', asc ''%PDF'')]\<rparr>))]"
    by blast
  from n C3_duplicate_skips_upload [of notes_env]
  have r2: "uploads (run_main notes_env) =
      [UploadFile (file_path notes_env) (AWS_BUCKET_NAME notes_env) (basename (file_path notes_env))]"
    by blast
  show ?thesis
    using a n r1 r2 by (simp only: p q simp_thms)
qed


text \<open>
  Against claim C3 as stated: the bucket holds an object whose key is the file's name,
  the listing call raises (here for a missing permission to list), and the file is
  uploaded all the same, the exception of the listing being swallowed.
\<close>

theorem C3_counterexample:
  "map fst (bucket_objects (notes_env\<lparr>bucket_objects := [(asc ''notes.pdf'', asc ''%PDF'')],
       list_objects_error := Some (Exn (asc ''AccessDenied''))\<rparr>)) =
     [basename (file_path notes_env)] \<and>
   uploads (run_main (notes_env\<lparr>bucket_objects := [(asc ''notes.pdf'', asc ''%PDF'')],
       list_objects_error := Some (Exn (asc ''AccessDenied''))\<rparr>)) =
     [UploadFile (asc ''/home/user/notes.pdf'') (Some (asc ''docs'')) (asc ''notes.pdf'')]"
  by (simp add: pipeline_defs)


lemma extract_pages_raises:
  "extract_pages acc (map Inr ts @ Inl e # rest) = Inl e"
  by (induction ts arbitrary: acc) simp_all

lemma lambda_pages_raises:
  "lambda_pages acc (map Inr ts @ Inl e # rest) = Inl e"
  by (induction ts arbitrary: acc) simp_all

lemma read_pdf_raises:
  "d = Inl e \<or> d = Inr (map Inr ts @ Inl e # rest) \<Longrightarrow> read_pdf d = Inl e"
  by (auto simp: read_pdf_def extract_pages_raises)

lemma lambda_read_pdf_raises:
  "d = Inl e \<or> d = Inr (map Inr ts @ Inl e # rest) \<Longrightarrow> lambda_read_pdf d = Inl e"
  by (auto simp: lambda_read_pdf_def lambda_pages_raises)

lemma filter_extract_and_store:
  "filter is_open_pdf (extract_and_store E) = [OpenPdf (file_path E)]"
  "filter is_upload (extract_and_store E) = []"
  using extractions_extract_and_store [of E] uploads_extract_and_store [of E]
  by (simp_all add: extractions_def uploads_def)

text \<open>
  Claim C4, amended. In \<open>FINALBOT/main.py\<close> the text is extracted, and the notification
  emitted, exactly in the runs whose upload was skipped or succeeded: a failing upload
  call is reported as a progress message by the handler around the whole run, and the
  run ends there, with no extraction and no notification. In \<open>app.py\<close> the text has
  been extracted before the upload; a failing upload call is reported as a progress
  message and the run ends without the notification.
\<close>

theorem C4_upload_failure_ends_run:
  "(extractions (run_main E) \<noteq> [] \<longleftrightarrow> already E \<or> upload_file E = Inr ()) \<and>
   (notifications (run_main E) \<noteq> [] \<longleftrightarrow> already E \<or> upload_file E = Inr ()) \<and>
   (\<not> already E \<and> upload_file E = Inl e \<longrightarrow>
      run_main E =
        [ListObjects (AWS_BUCKET_NAME E) (basename (file_path E)),
         UploadFile (file_path E) (AWS_BUCKET_NAME E) (basename (file_path E)),
         Progress (ThreadError e)]) \<and>
   (truthy (AWS_BUCKET_NAME E) \<and> read_pdf (PdfReader E) = Inr t \<and> upload_file E = Inl e \<longrightarrow>
      run_app E =
        [OpenPdf (file_path E),
         UploadFile (file_path E) (AWS_BUCKET_NAME E) (basename (file_path E)),
         Progress (ErrorApp e)])"
proof (intro conjI impI)
  show "extractions (run_main E) \<noteq> [] \<longleftrightarrow> already E \<or> upload_file E = Inr ()"
    by (cases "upload_file E")
       (simp_all add: run_main_def Let_def extractions_def filter_extract_and_store)
next
  have "filter is_notification (extract_and_store E) \<noteq> []"
    using notifications_extract_and_store [of E] by (simp add: notifications_def)
  then show "notifications (run_main E) \<noteq> [] \<longleftrightarrow> already E \<or> upload_file E = Inr ()"
    by (cases "upload_file E") (simp_all add: run_main_def Let_def notifications_def)
next
  assume "\<not> already E \<and> upload_file E = Inl e"
  then show "run_main E =
        [ListObjects (AWS_BUCKET_NAME E) (basename (file_path E)),
         UploadFile (file_path E) (AWS_BUCKET_NAME E) (basename (file_path E)),
         Progress (ThreadError e)]"
    by (simp add: run_main_def Let_def)
next
  assume "truthy (AWS_BUCKET_NAME E) \<and> read_pdf (PdfReader E) = Inr t \<and> upload_file E = Inl e"
  then show "run_app E =
        [OpenPdf (file_path E),
         UploadFile (file_path E) (AWS_BUCKET_NAME E) (basename (file_path E)),
         Progress (ErrorApp e)]"
    by (simp add: run_app_def Let_def)
qed

text \<open>
  Against claim C4 as stated: the upload call raises; \<open>FINALBOT/main.py\<close> never opens the
  PDF and neither implementation emits the extracted-text notification.
\<close>

theorem C4_counterexample:
  "upload_file (notes_env\<lparr>upload_file := Inl (Exn (asc ''NoCredentialsError''))\<rparr>) =
     Inl (Exn (asc ''NoCredentialsError'')) \<and>
   extractions (run_main (notes_env\<lparr>upload_file := Inl (Exn (asc ''NoCredentialsError''))\<rparr>)) = [] \<and>
   notifications (run_main (notes_env\<lparr>upload_file := Inl (Exn (asc ''NoCredentialsError''))\<rparr>)) = [] \<and>
   notifications (run_app (notes_env\<lparr>upload_file := Inl (Exn (asc ''NoCredentialsError''))\<rparr>)) = []"
  by (simp add: pipeline_defs)

text \<open>The theorem of C4 at the scenario with a failing upload call.\<close>

theorem C4_witness:
  "run_main (notes_env\<lparr>upload_file := Inl (Exn (asc ''NoCredentialsError''))\<rparr>) =
     [ListObjects (Some (asc ''docs'')) (asc ''notes.pdf''),
      UploadFile (asc ''/home/user/notes.pdf'') (Some (asc ''docs'')) (asc ''notes.pdf''),
      Progress (ThreadError (Exn (asc ''NoCredentialsError'')))] \<and>
   run_app (notes_env\<lparr>upload_file := Inl (Exn (asc ''NoCredentialsError''))\<rparr>) =
     [OpenPdf (asc ''/home/user/notes.pdf''),
      UploadFile (asc ''/home/user/notes.pdf'') (Some (asc ''docs'')) (asc ''notes.pdf''),
      Progress (ErrorApp (Exn (asc ''NoCredentialsError'')))]"
proof -
  let ?E = "notes_env\<lparr>upload_file := Inl (Exn (asc ''NoCredentialsError''))\<rparr>"
  have h1: "\<not> already ?E \<and> upload_file ?E = Inl (Exn (asc ''NoCredentialsError''))"
    by (simp add: pipeline_defs)
  have h2: "truthy (AWS_BUCKET_NAME ?E) \<and>
      read_pdf (PdfReader ?E) = Inr (asc ''Hello'' @ [10, 10, 10, 10]) \<and>
      upload_file ?E = Inl (Exn (asc ''NoCredentialsError''))"
    by (simp add: pipeline_defs)
  have v: "file_path ?E = asc ''/home/user/notes.pdf''" "AWS_BUCKET_NAME ?E = Some (asc ''docs'')"
    "basename (asc ''/home/user/notes.pdf'') = asc ''notes.pdf''"
    by (simp_all add: pipeline_defs)
  from h1 C4_upload_failure_ends_run [of ?E "Exn (asc ''NoCredentialsError'')"]
  have r1: "run_main ?E =
        [ListObjects (AWS_BUCKET_NAME ?E) (basename (file_path ?E)),
         UploadFile (file_path ?E) (AWS_BUCKET_NAME ?E) (basename (file_path ?E)),
         Progress (ThreadError (Exn (asc ''NoCredentialsError'')))]"
    by blast
  from h2 C4_upload_failure_ends_run [of ?E "Exn (asc ''NoCredentialsError'')" "asc ''Hello'' @ [10, 10, 10, 10]"]
  have r2: "run_app ?E =
        [OpenPdf (file_path ?E),
         UploadFile (file_path ?E) (AWS_BUCKET_NAME ?E) (basename (file_path ?E)),
         Progress (ErrorApp (Exn (asc ''NoCredentialsError'')))]"
    by blast
  show ?thesis
    using r1 r2 by (simp only: v simp_thms)
qed

section \<open>Exceptions of the extraction\<close>

text \<open>
  Claim C5, amended. An exception of the extraction is one raised when the reader opens
  the file or by a page, after any number of pages that were read. In
  \<open>FINALBOT/main.py\<close> the extraction step catches it itself: a warning is emitted, the
  text is the empty string, and the run goes on to notify the listeners with the empty
  text and an empty key. In \<open>app.py\<close> the handler around the whole run catches it: a
  message is emitted and the run ends, with no text and no notification. The
  \<open>lambda_handler\<close> of \<open>extractdata.py\<close> raises it again to its caller.
\<close>

theorem C5_extraction_exceptions:
  "(PdfReader E = Inl e \<or> PdfReader E = Inr (map Inr ts @ Inl e # rest) \<longrightarrow>
      extraction_step E = ([OpenPdf (file_path E), Progress (ExtractionFailed e)], []) \<and>
      extract_and_store E =
        [OpenPdf (file_path E), Progress (ExtractionFailed e), ExtractedTextSignal [] []] \<and>
      run_app E = [OpenPdf (file_path E), Progress (ErrorApp e)]) \<and>
   (get_object L = Inr () \<and>
    (lambda_PdfReader L = Inl e \<or> lambda_PdfReader L = Inr (map Inr ts @ Inl e # rest)) \<longrightarrow>
      lambda_handler L = Inl e)"
proof (intro conjI impI)
  assume a: "PdfReader E = Inl e \<or> PdfReader E = Inr (map Inr ts @ Inl e # rest)"
  then have r: "read_pdf (PdfReader E) = Inl e"
    by (rule read_pdf_raises)
  then show s: "extraction_step E = ([OpenPdf (file_path E), Progress (ExtractionFailed e)], [])"
    by (simp add: extraction_step_def)
  then show "extract_and_store E =
        [OpenPdf (file_path E), Progress (ExtractionFailed e), ExtractedTextSignal [] []]"
    by (simp add: extract_and_store_def storage_step_def)
  from r show "run_app E = [OpenPdf (file_path E), Progress (ErrorApp e)]"
    by (simp add: run_app_def Let_def)
next
  assume a: "get_object L = Inr () \<and>
    (lambda_PdfReader L = Inl e \<or> lambda_PdfReader L = Inr (map Inr ts @ Inl e # rest))"
  then have "lambda_read_pdf (lambda_PdfReader L) = Inl e"
    using lambda_read_pdf_raises [of "lambda_PdfReader L" e ts rest] by blast
  with a show "lambda_handler L = Inl e"
    by (simp add: lambda_handler_def)
qed

text \<open>
  Against claim C5 as stated: in \<open>lambda_handler\<close> the exception of the reader reaches
  the caller.
\<close>

theorem C5_counterexample:
  "lambda_handler
     \<lparr>object_key = asc ''notes.pdf'', get_object = Inr (),
      lambda_PdfReader = Inl (Exn (asc ''PdfReadError'')), lambda_put_object = Inr ()\<rparr> =
   Inl (Exn (asc ''PdfReadError''))"
  by (simp add: pipeline_defs)

text \<open>The theorem of C5 where the second page raises.\<close>

theorem C5_witness:
  "extract_and_store (notes_env\<lparr>PdfReader := Inr [Inr (Some (asc ''Hello'')), Inl (Exn (asc ''page 2''))]\<rparr>) =
     [OpenPdf (asc ''/home/user/notes.pdf''), Progress (ExtractionFailed (Exn (asc ''page 2''))),
      ExtractedTextSignal [] []] \<and>
   run_app (notes_env\<lparr>PdfReader := Inr [Inr (Some (asc ''Hello'')), Inl (Exn (asc ''page 2''))]\<rparr>) =
     [OpenPdf (asc ''/home/user/notes.pdf''), Progress (ErrorApp (Exn (asc ''page 2'')))] \<and>
   lambda_handler
     \<lparr>object_key = asc ''notes.pdf'', get_object = Inr (),
      lambda_PdfReader = Inr [Inr (Some (asc ''Hello'')), Inl (Exn (asc ''page 2''))],
      lambda_put_object = Inr ()\<rparr> =
   Inl (Exn (asc ''page 2''))"
proof -
  let ?E = "notes_env\<lparr>PdfReader := Inr [Inr (Some (asc ''Hello'')), Inl (Exn (asc ''page 2''))]\<rparr>"
  let ?L = "\<lparr>object_key = asc ''notes.pdf'', get_object = Inr (),
      lambda_PdfReader = Inr [Inr (Some (asc ''Hello'')), Inl (Exn (asc ''page 2''))],
      lambda_put_object = Inr ()\<rparr>"
  have h1: "PdfReader ?E = Inr (map Inr [Some (asc ''Hello'')] @ Inl (Exn (asc ''page 2'')) # [])"
    by (simp add: notes_env_def)
  have h2: "get_object ?L = Inr () \<and>
      lambda_PdfReader ?L = Inr (map Inr [Some (asc ''Hello'')] @ Inl (Exn (asc ''page 2'')) # [])"
    by simp
  have v: "file_path ?E = asc ''/home/user/notes.pdf''"
    by (simp add: notes_env_def)
  note t = C5_extraction_exceptions [of ?E "Exn (asc ''page 2'')" "[Some (asc ''Hello'')]" "[]" ?L]
  from h1 t have r1: "extract_and_store ?E =
        [OpenPdf (file_path ?E), Progress (ExtractionFailed (Exn (asc ''page 2''))),
         ExtractedTextSignal [] []] \<and>
      run_app ?E = [OpenPdf (file_path ?E), Progress (ErrorApp (Exn (asc ''page 2'')))]"
    by blast
  from h2 t have r2: "lambda_handler ?L = Inl (Exn (asc ''page 2''))"
    by blast
  show ?thesis
    using r1 r2 by (simp only: v simp_thms)
qed


lemma rfind_dot_last:
  "46 \<notin> set ext \<Longrightarrow> rfind_dot (base @ 46 # ext) = Some (length base)"
proof -
  assume "46 \<notin> set ext"
  then have "takeWhile (\<lambda>c. c \<noteq> 46) (rev ext @ 46 # rev base) = rev ext"
    by (induction ext rule: rev_induct) auto
  then show ?thesis
    by (simp add: rfind_dot_def)
qed

lemma stem_extension:
  assumes "base \<noteq> []" and "ext \<noteq> []" and "46 \<notin> set ext"
  shows "stem (base @ 46 # ext) = base"
proof -
  from assms(1) have ne: "base @ 46 # ext \<noteq> [46]"
    by (cases base) auto
  from assms(1,2) have "0 < length base \<and> length base < length (base @ 46 # ext) - 1"
    by (cases ext) auto
  with ne assms(3) show ?thesis
    by (simp add: stem_def rfind_dot_last)
qed

lemma put_attempts_app_after_upload:
  "put_attempts (app_after_upload E t) =
     (if t \<noteq> [] \<and> truthy (AWS_EXTRACT_BUCKET E)
      then [PutObject (AWS_EXTRACT_BUCKET E) (txt_key (basename (file_path E))) t] else [])"
  by (simp add: put_attempts_def app_after_upload_def Let_def split: sum.splits)

lemma notifications_app_after_upload:
  "notifications (app_after_upload E t) =
     (if t = [] \<or> \<not> truthy (AWS_EXTRACT_BUCKET E) \<or> put_object E = Inr ()
      then [ExtractedText t] else [])"
  by (auto simp: notifications_def app_after_upload_def Let_def split: sum.splits)

lemma put_attempts_run_main:
  "put_attempts (run_main E) =
     (if (already E \<or> upload_file E = Inr ()) \<and> snd (extraction_step E) \<noteq> [] \<and>
         truthy (AWS_EXTRACT_BUCKET E)
      then [PutObject (AWS_EXTRACT_BUCKET E) (txt_key (basename (file_path E)))
              (snd (extraction_step E))]
      else [])"
proof -
  have "put_attempts (run_main E) =
      (if already E \<or> upload_file E = Inr () then put_attempts (extract_and_store E) else [])"
    by (cases "upload_file E") (simp_all add: run_main_def Let_def put_attempts_def)
  then show ?thesis
    by (simp add: put_attempts_extract_and_store)
qed

lemma notifications_run_main:
  "notifications (run_main E) =
     (if already E \<or> upload_file E = Inr ()
      then [ExtractedTextSignal (snd (extraction_step E))
              (if snd (extraction_step E) \<noteq> [] \<and> truthy (AWS_EXTRACT_BUCKET E) \<and>
                  put_object E = Inr ()
               then txt_key (basename (file_path E)) else [])]
      else [])"
proof -
  have "notifications (run_main E) =
      (if already E \<or> upload_file E = Inr () then notifications (extract_and_store E) else [])"
    by (cases "upload_file E") (simp_all add: run_main_def Let_def notifications_def)
  then show ?thesis
    by (simp add: notifications_extract_and_store)
qed

lemma put_attempts_run_app:
  "put_attempts (run_app E) =
     (case read_pdf (PdfReader E) of
        Inl e \<Rightarrow> []
      | Inr t \<Rightarrow>
          if truthy (AWS_BUCKET_NAME E) \<and> upload_file E = Inr () \<and> t \<noteq> [] \<and>
             truthy (AWS_EXTRACT_BUCKET E)
          then [PutObject (AWS_EXTRACT_BUCKET E) (txt_key (basename (file_path E))) t]
          else [])"
proof (cases "read_pdf (PdfReader E)")
  case (Inl e)
  then show ?thesis by (simp add: run_app_def Let_def put_attempts_def)
next
  case (Inr t)
  note a = put_attempts_app_after_upload [of E t, unfolded put_attempts_def]
  from Inr show ?thesis
    by (cases "upload_file E") (simp_all add: run_app_def Let_def put_attempts_def a)
qed

lemma notifications_run_app:
  "notifications (run_app E) =
     (case read_pdf (PdfReader E) of
        Inl e \<Rightarrow> []
      | Inr t \<Rightarrow>
          if \<not> truthy (AWS_BUCKET_NAME E) \<or>
             (upload_file E = Inr () \<and>
              (t = [] \<or> \<not> truthy (AWS_EXTRACT_BUCKET E) \<or> put_object E = Inr ()))
          then [ExtractedText t]
          else [])"
proof (cases "read_pdf (PdfReader E)")
  case (Inl e)
  then show ?thesis by (simp add: run_app_def Let_def notifications_def)
next
  case (Inr t)
  note a = notifications_app_after_upload [of E t, unfolded notifications_def]
  from Inr show ?thesis
    by (cases "upload_file E") (simp_all add: run_app_def Let_def notifications_def a)
qed

section \<open>Properties of the secondary storage step\<close>

text \<open>
  Claim C2, amended. In \<open>FINALBOT/main.py\<close>, in every run that reaches the storage step
  (the upload was skipped or succeeded), the store call, which writes the extracted text
  to the extract bucket under the file's name with \<open>.txt\<close> in place of its extension,
  is attempted exactly when the text is not empty and the extract bucket is configured;
  the notification carries the text with that key when the store call returned and with
  the empty key otherwise, also when the store call raised. In \<open>app.py\<close> the store call
  is attempted exactly when, moreover, the primary bucket is configured and the upload
  succeeded; the notification carries the text alone and is emitted exactly when none of
  the extraction, the upload and the store raised.
\<close>

theorem C2_secondary_storage:
  "put_attempts (run_main E) =
     (if (already E \<or> upload_file E = Inr ()) \<and> snd (extraction_step E) \<noteq> [] \<and>
         truthy (AWS_EXTRACT_BUCKET E)
      then [PutObject (AWS_EXTRACT_BUCKET E) (txt_key (basename (file_path E)))
              (snd (extraction_step E))]
      else []) \<and>
   notifications (run_main E) =
     (if already E \<or> upload_file E = Inr ()
      then [ExtractedTextSignal (snd (extraction_step E))
              (if snd (extraction_step E) \<noteq> [] \<and> truthy (AWS_EXTRACT_BUCKET E) \<and>
                  put_object E = Inr ()
               then txt_key (basename (file_path E)) else [])]
      else []) \<and>
   put_attempts (run_app E) =
     (case read_pdf (PdfReader E) of
        Inl e \<Rightarrow> []
      | Inr t \<Rightarrow>
          if truthy (AWS_BUCKET_NAME E) \<and> upload_file E = Inr () \<and> t \<noteq> [] \<and>
             truthy (AWS_EXTRACT_BUCKET E)
          then [PutObject (AWS_EXTRACT_BUCKET E) (txt_key (basename (file_path E))) t]
          else []) \<and>
   notifications (run_app E) =
     (case read_pdf (PdfReader E) of
        Inl e \<Rightarrow> []
      | Inr t \<Rightarrow>
          if \<not> truthy (AWS_BUCKET_NAME E) \<or>
             (upload_file E = Inr () \<and>
              (t = [] \<or> \<not> truthy (AWS_EXTRACT_BUCKET E) \<or> put_object E = Inr ()))
          then [ExtractedText t]
          else []) \<and>
   (base \<noteq> [] \<and> ext \<noteq> [] \<and> 46 \<notin> set ext \<longrightarrow>
      txt_key (base @ 46 # ext) = base @ asc ''.txt'')"
  using put_attempts_run_main [of E] notifications_run_main [of E]
    put_attempts_run_app [of E] notifications_run_app [of E] stem_extension [of base ext]
  by (simp only: txt_key_def) blast

text \<open>
  Against claim C2 as stated, in \<open>app.py\<close>: with a text that is not empty and the extract
  bucket configured, nothing is stored when the primary bucket is the empty string; no
  notification is emitted when the store call raises; and the notification of a run
  that stored the text carries no key.
\<close>

theorem C2_counterexample:
  "read_pdf (PdfReader notes_env) = Inr (asc ''Hello'' @ [10, 10, 10, 10]) \<and>
   truthy (AWS_EXTRACT_BUCKET notes_env) \<and>
   put_attempts (run_app (notes_env\<lparr>AWS_BUCKET_NAME := Some []\<rparr>)) = [] \<and>
   notifications (run_app (notes_env\<lparr>put_object := Inl (Exn (asc ''AccessDenied''))\<rparr>)) = [] \<and>
   notifications (run_app notes_env) = [ExtractedText (asc ''Hello'' @ [10, 10, 10, 10])]"
  by (simp add: pipeline_defs)


text \<open>The theorem of C2 at the scenario: the text is stored as \<open>notes.txt\<close>.\<close>

theorem C2_witness:
  "put_attempts (run_main notes_env) =
     [PutObject (Some (asc ''extracts'')) (asc ''notes.txt'') (asc ''Hello'' @ [10, 10, 10, 10])] \<and>
   notifications (run_main notes_env) =
     [ExtractedTextSignal (asc ''Hello'' @ [10, 10, 10, 10]) (asc ''notes.txt'')] \<and>
   put_attempts (run_app notes_env) =
     [PutObject (Some (asc ''extracts'')) (asc ''notes.txt'') (asc ''Hello'' @ [10, 10, 10, 10])] \<and>
   notifications (run_app notes_env) = [ExtractedText (asc ''Hello'' @ [10, 10, 10, 10])] \<and>
   txt_key (asc ''notes'' @ 46 # asc ''pdf'') = asc ''notes'' @ asc ''.txt''"
proof -
  note t = C2_secondary_storage [of notes_env "asc ''notes''" "asc ''pdf''"]
  have v: "already notes_env = False" "upload_file notes_env = Inr ()"
    "snd (extraction_step notes_env) = asc ''Hello'' @ [10, 10, 10, 10]"
    "read_pdf (PdfReader notes_env) = Inr (asc ''Hello'' @ [10, 10, 10, 10])"
    "truthy (Some (asc ''extracts'')) = True" "truthy (AWS_BUCKET_NAME notes_env) = True"
    "put_object notes_env = Inr ()" "AWS_EXTRACT_BUCKET notes_env = Some (asc ''extracts'')"
    "txt_key (basename (file_path notes_env)) = asc ''notes.txt''"
    by (simp_all add: pipeline_defs)
  have ne: "asc ''Hello'' @ [10, 10, 10, 10] \<noteq> []"
    by simp
  have h: "asc ''notes'' \<noteq> [] \<and> asc ''pdf'' \<noteq> [] \<and> 46 \<notin> set (asc ''pdf'')"
    by (simp add: pipeline_defs)
  from t have r1: "put_attempts (run_main notes_env) =
     [PutObject (Some (asc ''extracts'')) (asc ''notes.txt'') (asc ''Hello'' @ [10, 10, 10, 10])]"
    by (simp add: v ne)
  from t have r2: "notifications (run_main notes_env) =
     [ExtractedTextSignal (asc ''Hello'' @ [10, 10, 10, 10]) (asc ''notes.txt'')]"
    by (simp add: v ne)
  from t have r3: "put_attempts (run_app notes_env) =
     [PutObject (Some (asc ''extracts'')) (asc ''notes.txt'') (asc ''Hello'' @ [10, 10, 10, 10])]"
    by (simp add: v ne)
  from t have r4: "notifications (run_app notes_env) = [ExtractedText (asc ''Hello'' @ [10, 10, 10, 10])]"
    by (simp add: v ne)
  from t h have r5: "txt_key (asc ''notes'' @ 46 # asc ''pdf'') = asc ''notes'' @ asc ''.txt''"
    by blast
  from r1 r2 r3 r4 r5 show ?thesis
    by blast
qed

section \<open>Properties of the answer formatting\<close>

lemmas eval_defs =
  asc_def strip_def is_space_def blank_line_def split_def split_ws_def segments_def sentences_def
  parts_def answer_lines_def format_ollama_answer_def re_split_sentences_def is_sentence_end_def
  mentions_example_def lower_def lower_char_def digits.simps Let_def no_response_def
  example_note_def source_footer_def spec_format_answer_def

lemma split_from_without_separator:
  "\<not> contains sep s \<Longrightarrow> split_from sep cur s = [cur @ s]"
  by (induction s arbitrary: cur) simp_all

lemma segments_without_separator:
  "\<not> contains sep s \<Longrightarrow> length (segments sep s) \<le> 1"
  by (simp add: segments_def split_def split_from_without_separator)

lemma number_lines_append:
  "number_lines acc i ls = acc @ number_lines [] i ls"
proof (induction ls arbitrary: acc i)
  case Nil
  then show ?case by simp
next
  case (Cons ln lns)
  have "number_lines acc i (ln # lns) = number_lines (acc @ [digits i @ asc ''. '' @ ln]) (Suc i) lns"
    by simp
  also have "\<dots> = (acc @ [digits i @ asc ''. '' @ ln]) @ number_lines [] (Suc i) lns"
    by (rule Cons.IH)
  also have "\<dots> = acc @ number_lines [digits i @ asc ''. '' @ ln] (Suc i) lns"
    using Cons.IH [of "[digits i @ asc ''. '' @ ln]" "Suc i"] by simp
  finally show ?case by simp
qed

lemma number_lines_Cons:
  "number_lines [] i (ln # lns) = (digits i @ asc ''. '' @ ln) # number_lines [] (Suc i) lns"
  using number_lines_append [of "[digits i @ asc ''. '' @ ln]" "Suc i" lns] by simp

lemma length_number_lines: "length (number_lines [] i ls) = length ls"
  by (induction ls arbitrary: i) (simp_all add: number_lines_Cons del: number_lines.simps(2))

lemma nth_number_lines:
  "k < length ls \<Longrightarrow> number_lines [] i ls ! k = digits (i + k) @ asc ''. '' @ ls ! k"
proof (induction ls arbitrary: i k)
  case Nil
  then show ?case by simp
next
  case (Cons ln lns)
  show ?case
  proof (cases k)
    case 0
    then show ?thesis by (simp add: number_lines_Cons del: number_lines.simps(2))
  next
    case (Suc j)
    with Cons.prems have "j < length lns" by simp
    from Cons.IH [OF this, of "Suc i"] Suc show ?thesis
      by (simp add: number_lines_Cons del: number_lines.simps(2))
  qed
qed

text \<open>
  Claim C6, amended. An empty reply gives the fixed no-response message and nothing
  else. For every other reply, with \<open>s\<close> the reply stripped of surrounding white space:
  the output is the numbered lines, joined by blank lines, then the fixed example note
  exactly when the lowered \<open>s\<close> contains \<open>example\<close> or \<open>e.g.\<close> as a substring, then
  the fixed source footer. The numbered lines are as many as the lines, in their order,
  the one at index \<open>k\<close> being the number \<open>k + 1\<close>, a full stop, a space and the line.
  The lines are the non-empty pieces between blank lines when there are at least three
  of them; the non-empty pieces between single newlines when \<open>s\<close> has no blank line and
  there are at least three of those; and the sentences, cut at the spaces that follow a
  full stop, exclamation mark or question mark, in every other case.
\<close>

theorem C6_format_ollama_answer:
  "format_ollama_answer [] = no_response \<and>
   (raw \<noteq> [] \<longrightarrow>
      format_ollama_answer raw =
        join blank_line (number_lines [] 1 (answer_lines (strip raw))) @
        (if contains (asc ''example'') (lower (strip raw)) \<or>
            contains (asc ''e.g.'') (lower (strip raw))
         then example_note else []) @
        source_footer) \<and>
   length (number_lines [] 1 ls) = length ls \<and>
   (k < length ls \<longrightarrow> number_lines [] 1 ls ! k = digits (Suc k) @ asc ''. '' @ ls ! k) \<and>
   (3 \<le> length (segments blank_line s) \<longrightarrow> answer_lines s = segments blank_line s) \<and>
   (\<not> contains blank_line s \<and> 3 \<le> length (segments [10] s) \<longrightarrow>
      answer_lines s = segments [10] s) \<and>
   (length (segments blank_line s) < 3 \<and>
    (contains blank_line s \<or> length (segments [10] s) < 3) \<longrightarrow>
      answer_lines s = sentences s)"
proof (intro conjI impI)
  show "format_ollama_answer [] = no_response"
    by (simp add: format_ollama_answer_def)
next
  assume "raw \<noteq> []"
  then show "format_ollama_answer raw =
        join blank_line (number_lines [] 1 (answer_lines (strip raw))) @
        (if contains (asc ''example'') (lower (strip raw)) \<or>
            contains (asc ''e.g.'') (lower (strip raw))
         then example_note else []) @
        source_footer"
    by (simp add: format_ollama_answer_def mentions_example_def Let_def)
next
  show "length (number_lines [] 1 ls) = length ls"
    by (rule length_number_lines)
next
  assume "k < length ls"
  then show "number_lines [] 1 ls ! k = digits (Suc k) @ asc ''. '' @ ls ! k"
    using nth_number_lines [of k ls 1] by simp
next
  assume a: "3 \<le> length (segments blank_line s)"
  have "contains blank_line s"
  proof (rule ccontr)
    assume "\<not> contains blank_line s"
    then have "length (segments blank_line s) \<le> 1"
      by (rule segments_without_separator)
    with a show False by simp
  qed
  with a show "answer_lines s = segments blank_line s"
    by (simp add: answer_lines_def parts_def)
next
  assume "\<not> contains blank_line s \<and> 3 \<le> length (segments [10] s)"
  then show "answer_lines s = segments [10] s"
    by (simp add: answer_lines_def parts_def)
next
  assume "length (segments blank_line s) < 3 \<and>
    (contains blank_line s \<or> length (segments [10] s) < 3)"
  then show "answer_lines s = sentences s"
    by (auto simp: answer_lines_def parts_def)
qed

text \<open>
  Against claim C6 as stated, with the formatting as the claim words it beside the
  function: three lines separated by single newlines are numbered one by one, not as one
  sentence; a reply with \<open>e.g.\<close> and without the word \<open>example\<close> gets the note; and
  the empty reply gets no footer.
\<close>

theorem C6_counterexample:
  "format_ollama_answer (asc ''a\<newline>b\<newline>c'') =
     asc ''1. a\<newline>\<newline>2. b\<newline>\<newline>3. c'' @ source_footer \<and>
   spec_format_answer (asc ''a\<newline>b\<newline>c'') = asc ''1. a\<newline>b\<newline>c'' @ source_footer \<and>
   format_ollama_answer (asc ''See e.g. the docs.'') =
     asc ''1. See e.g.\<newline>\<newline>2. the docs.'' @ example_note @ source_footer \<and>
   spec_format_answer (asc ''See e.g. the docs.'') =
     asc ''1. See e.g.\<newline>\<newline>2. the docs.'' @ source_footer \<and>
   format_ollama_answer [] = no_response \<and>
   spec_format_answer [] = source_footer \<and>
   no_response \<noteq> source_footer"
  by (simp add: eval_defs)


text \<open>
  The theorem of C6 at three replies, one for each way of cutting the lines, and at a
  list of two lines.
\<close>

theorem C6_witness:
  "format_ollama_answer (asc ''one\<newline>\<newline>two\<newline>\<newline>three'') =
     asc ''1. one\<newline>\<newline>2. two\<newline>\<newline>3. three'' @ source_footer \<and>
   answer_lines (asc ''one\<newline>\<newline>two\<newline>\<newline>three'') = [asc ''one'', asc ''two'', asc ''three''] \<and>
   answer_lines (asc ''a\<newline>b\<newline>c'') = [asc ''a'', asc ''b'', asc ''c''] \<and>
   answer_lines (asc ''Hi. Bye.'') = [asc ''Hi.'', asc ''Bye.''] \<and>
   number_lines [] 1 [asc ''x'', asc ''y''] ! 1 = asc ''2. y''"
proof -
  let ?s1 = "asc ''one\<newline>\<newline>two\<newline>\<newline>three''"
  let ?s2 = "asc ''a\<newline>b\<newline>c''"
  let ?s3 = "asc ''Hi. Bye.''"
  let ?ls = "[asc ''x'', asc ''y'']"
  note t1 = C6_format_ollama_answer [of ?s1 ?ls 1 ?s1]
  note t2 = C6_format_ollama_answer [of ?s1 ?ls 1 ?s2]
  note t3 = C6_format_ollama_answer [of ?s1 ?ls 1 ?s3]
  have h0: "?s1 \<noteq> []" "1 < length ?ls"
    by (simp_all add: asc_def)
  have h1: "3 \<le> length (segments blank_line ?s1)"
    by (simp add: eval_defs)
  have h2: "\<not> contains blank_line ?s2 \<and> 3 \<le> length (segments [10] ?s2)"
    by (simp add: eval_defs)
  have h3: "length (segments blank_line ?s3) < 3 \<and>
      (contains blank_line ?s3 \<or> length (segments [10] ?s3) < 3)"
    by (simp add: eval_defs)
  have v: "segments blank_line ?s1 = [asc ''one'', asc ''two'', asc ''three'']"
    "segments [10] ?s2 = [asc ''a'', asc ''b'', asc ''c'']"
    "sentences ?s3 = [asc ''Hi.'', asc ''Bye.'']"
    "digits (Suc 1) @ asc ''. '' @ ?ls ! 1 = asc ''2. y''"
    by (simp_all add: eval_defs)
  from t1 h1 have a1: "answer_lines ?s1 = segments blank_line ?s1"
    by blast
  from t2 h2 have a2: "answer_lines ?s2 = segments [10] ?s2"
    by blast
  from t3 h3 have a3: "answer_lines ?s3 = sentences ?s3"
    by blast
  from t1 h0 have a4: "number_lines [] 1 ?ls ! 1 = digits (Suc 1) @ asc ''. '' @ ?ls ! 1"
    by blast
  from t1 h0 have a5: "format_ollama_answer ?s1 =
        join blank_line (number_lines [] 1 (answer_lines (strip ?s1))) @
        (if contains (asc ''example'') (lower (strip ?s1)) \<or>
            contains (asc ''e.g.'') (lower (strip ?s1))
         then example_note else []) @
        source_footer"
    by blast
  have w: "join blank_line (number_lines [] 1 (answer_lines (strip ?s1))) @
        (if contains (asc ''example'') (lower (strip ?s1)) \<or>
            contains (asc ''e.g.'') (lower (strip ?s1))
         then example_note else []) @
        source_footer = asc ''1. one\<newline>\<newline>2. two\<newline>\<newline>3. three'' @ source_footer"
    by (simp add: eval_defs)
  from a1 a2 a3 a4 a5 show ?thesis
    by (simp only: v w simp_thms)
qed

section \<open>Properties of the reply extraction\<close>

lemma spec_message_content_dict:
  "spec_message_content (JObj d) = Some v \<Longrightarrow>
   \<exists>m. message_of d = Some m \<and> map_of m (asc ''content'') = Some v"
  by (auto simp: spec_message_content_def field_def message_of_def split: option.splits json.splits)

lemma extract_reply_message:
  "body_json resp = Some data \<Longrightarrow> spec_message_content data = Some v \<Longrightarrow>
   extract_reply resp = Value v"
proof -
  assume j: "body_json resp = Some data" and c: "spec_message_content data = Some v"
  from c obtain d where d: "data = JObj d"
    by (cases data) (simp_all add: spec_message_content_def field_def)
  with c obtain m where "message_of d = Some m" and "map_of m (asc ''content'') = Some v"
    using spec_message_content_dict by blast
  with j d show ?thesis
    by (simp add: extract_reply_def dict_get_def)
qed

text \<open>
  Claim C7, amended. A body that is not JSON gives the body as text. A JSON object whose
  \<open>message\<close> is an object gives that object's \<open>content\<close>, the empty string when it has
  none, and nothing else is tried. Otherwise, \<open>choices\<close> of a length above zero give
  the \<open>content\<close> of the \<open>message\<close> of the first choice, with the empty string for a
  missing message or content, and the body as text when \<open>len\<close>, the first choice or its
  message raise; a JSON object with neither gives \<open>json.dumps\<close> of the object, and a
  JSON value that is not an object gives its \<open>str\<close>. Whenever \<open>message.content\<close> is
  there, the reply is the one the specification describes.
\<close>

theorem C7_extract_reply:
  "(body_json resp = None \<longrightarrow> extract_reply resp = Value (JStr (body_text resp))) \<and>
   (body_json resp = Some (JObj d) \<and> message_of d = Some m \<longrightarrow>
      extract_reply resp = Value (dict_get m (asc ''content'') (JStr []))) \<and>
   (body_json resp = Some (JObj d) \<and> message_of d = None \<and>
    map_of d (asc ''choices'') = Some (JArr (JObj c # cs)) \<and> message_of c = Some m \<longrightarrow>
      extract_reply resp = Value (dict_get m (asc ''content'') (JStr []))) \<and>
   (body_json resp = Some (JObj d) \<and> message_of d = None \<and>
    map_of d (asc ''choices'') = Some (JArr (JObj c # cs)) \<and>
    map_of c (asc ''message'') = None \<longrightarrow>
      extract_reply resp = Value (JStr [])) \<and>
   (body_json resp = Some (JObj d) \<and> message_of d = None \<and>
    (map_of d (asc ''choices'') = None \<or>
     map_of d (asc ''choices'') = Some ch \<and> py_len ch = Some 0) \<longrightarrow>
      extract_reply resp = Dumps (JObj d)) \<and>
   (body_json resp = Some (JObj d) \<and> message_of d = None \<and>
    map_of d (asc ''choices'') = Some ch \<and>
    (py_len ch = None \<or> py_len ch = Some (Suc n) \<and> choices_content ch = None) \<longrightarrow>
      extract_reply resp = Value (JStr (body_text resp))) \<and>
   (body_json resp = Some data \<and> \<not> is_dict data \<longrightarrow> extract_reply resp = Str data) \<and>
   (body_json resp = Some data \<and> spec_message_content data = Some v \<longrightarrow>
      extract_reply resp = Value v \<and> spec_extract_reply resp = Value v)"
proof (intro conjI impI)
  assume "body_json resp = None"
  then show "extract_reply resp = Value (JStr (body_text resp))"
    by (simp add: extract_reply_def)
next
  assume "body_json resp = Some (JObj d) \<and> message_of d = Some m"
  then show "extract_reply resp = Value (dict_get m (asc ''content'') (JStr []))"
    by (simp add: extract_reply_def)
next
  assume "body_json resp = Some (JObj d) \<and> message_of d = None \<and>
    map_of d (asc ''choices'') = Some (JArr (JObj c # cs)) \<and> message_of c = Some m"
  then show "extract_reply resp = Value (dict_get m (asc ''content'') (JStr []))"
    by (auto simp: extract_reply_def choices_content_def dict_get_def message_of_def
        split: option.splits json.splits)
next
  assume "body_json resp = Some (JObj d) \<and> message_of d = None \<and>
    map_of d (asc ''choices'') = Some (JArr (JObj c # cs)) \<and>
    map_of c (asc ''message'') = None"
  then show "extract_reply resp = Value (JStr [])"
    by (simp add: extract_reply_def choices_content_def dict_get_def)
next
  assume "body_json resp = Some (JObj d) \<and> message_of d = None \<and>
    (map_of d (asc ''choices'') = None \<or>
     map_of d (asc ''choices'') = Some ch \<and> py_len ch = Some 0)"
  then show "extract_reply resp = Dumps (JObj d)"
    by (auto simp: extract_reply_def)
next
  assume "body_json resp = Some (JObj d) \<and> message_of d = None \<and>
    map_of d (asc ''choices'') = Some ch \<and>
    (py_len ch = None \<or> py_len ch = Some (Suc n) \<and> choices_content ch = None)"
  then show "extract_reply resp = Value (JStr (body_text resp))"
    by (auto simp: extract_reply_def)
next
  assume "body_json resp = Some data \<and> \<not> is_dict data"
  then show "extract_reply resp = Str data"
    by (cases data) (simp_all add: extract_reply_def is_dict_def)
next
  assume a: "body_json resp = Some data \<and> spec_message_content data = Some v"
  then show "extract_reply resp = Value v"
    using extract_reply_message by blast
  from a show "spec_extract_reply resp = Value v"
    by (simp add: spec_extract_reply_def)
qed

text \<open>
  Against claim C7 as stated: the \<open>message\<close> of the response has no \<open>content\<close> and
  its first choice has one; the reply is the empty string, not that content.
\<close>

theorem C7_counterexample:
  "extract_reply
     \<lparr>status_code = 200, body_text = asc ''{...}'',
      body_json = Some (JObj
        [(asc ''message'', JObj [(asc ''role'', JStr (asc ''assistant''))]),
         (asc ''choices'', JArr [JObj [(asc ''message'',
            JObj [(asc ''content'', JStr (asc ''hi''))])]])])\<rparr> =
     Value (JStr []) \<and>
   spec_extract_reply
     \<lparr>status_code = 200, body_text = asc ''{...}'',
      body_json = Some (JObj
        [(asc ''message'', JObj [(asc ''role'', JStr (asc ''assistant''))]),
         (asc ''choices'', JArr [JObj [(asc ''message'',
            JObj [(asc ''content'', JStr (asc ''hi''))])]])])\<rparr> =
     Value (JStr (asc ''hi''))"
  by (simp add: extract_reply_def spec_extract_reply_def spec_message_content_def
      spec_choices_content_def field_def message_of_def dict_get_def asc_def)

text \<open>The theorem of C7 at one response for each of its cases.\<close>

theorem C7_witness:
  "extract_reply \<lparr>status_code = 200, body_text = asc ''plain text'', body_json = None\<rparr> =
     Value (JStr (asc ''plain text'')) \<and>
   extract_reply \<lparr>status_code = 200, body_text = [],
      body_json = Some (JObj [(asc ''message'', JObj [(asc ''content'', JStr (asc ''hello''))])])\<rparr> =
     Value (JStr (asc ''hello'')) \<and>
   extract_reply \<lparr>status_code = 200, body_text = [],
      body_json = Some (JObj [(asc ''choices'',
        JArr [JObj [(asc ''message'', JObj [(asc ''content'', JStr (asc ''hi''))])]])])\<rparr> =
     Value (JStr (asc ''hi'')) \<and>
   extract_reply \<lparr>status_code = 200, body_text = [],
      body_json = Some (JObj [(asc ''choices'', JArr [JObj []])])\<rparr> =
     Value (JStr []) \<and>
   extract_reply \<lparr>status_code = 404, body_text = asc ''{...}'',
      body_json = Some (JObj [(asc ''error'', JStr (asc ''model not found''))])\<rparr> =
     Dumps (JObj [(asc ''error'', JStr (asc ''model not found''))]) \<and>
   extract_reply \<lparr>status_code = 200, body_text = asc ''{...}'',
      body_json = Some (JObj [(asc ''choices'', JNum (asc ''5''))])\<rparr> =
     Value (JStr (asc ''{...}'')) \<and>
   extract_reply \<lparr>status_code = 200, body_text = asc ''[]'', body_json = Some (JArr [])\<rparr> =
     Str (JArr []) \<and>
   spec_extract_reply \<lparr>status_code = 200, body_text = [],
      body_json = Some (JObj [(asc ''message'', JObj [(asc ''content'', JStr (asc ''hello''))])])\<rparr> =
     Value (JStr (asc ''hello''))"
proof -
  let ?m = "[(asc ''content'', JStr (asc ''hello''))]"
  let ?d2 = "[(asc ''message'', JObj ?m)]"
  let ?m3 = "[(asc ''content'', JStr (asc ''hi''))]"
  let ?c3 = "[(asc ''message'', JObj ?m3)]"
  let ?d3 = "[(asc ''choices'', JArr [JObj ?c3])]"
  let ?d4 = "[(asc ''choices'', JArr [JObj []])]"
  let ?d5 = "[(asc ''error'', JStr (asc ''model not found''))]"
  let ?d6 = "[(asc ''choices'', JNum (asc ''5''))]"
  let ?r1 = "\<lparr>status_code = 200, body_text = asc ''plain text'', body_json = None\<rparr>"
  let ?r2 = "\<lparr>status_code = 200, body_text = [], body_json = Some (JObj ?d2)\<rparr>"
  let ?r3 = "\<lparr>status_code = 200, body_text = [], body_json = Some (JObj ?d3)\<rparr>"
  let ?r4 = "\<lparr>status_code = 200, body_text = [], body_json = Some (JObj ?d4)\<rparr>"
  let ?r5 = "\<lparr>status_code = 404, body_text = asc ''{...}'', body_json = Some (JObj ?d5)\<rparr>"
  let ?r6 = "\<lparr>status_code = 200, body_text = asc ''{...}'', body_json = Some (JObj ?d6)\<rparr>"
  let ?r7 = "\<lparr>status_code = 200, body_text = asc ''[]'', body_json = Some (JArr [])\<rparr>"
  have h1: "body_json ?r1 = None"
    by simp
  have h2: "body_json ?r2 = Some (JObj ?d2) \<and> message_of ?d2 = Some ?m"
    by (simp add: message_of_def)
  have h3: "body_json ?r3 = Some (JObj ?d3) \<and> message_of ?d3 = None \<and>
      map_of ?d3 (asc ''choices'') = Some (JArr (JObj ?c3 # [])) \<and> message_of ?c3 = Some ?m3"
    by (simp add: message_of_def asc_def)
  have h4: "body_json ?r4 = Some (JObj ?d4) \<and> message_of ?d4 = None \<and>
      map_of ?d4 (asc ''choices'') = Some (JArr (JObj [] # [])) \<and>
      map_of [] (asc ''message'') = (None :: json option)"
    by (simp add: message_of_def asc_def)
  have h5: "body_json ?r5 = Some (JObj ?d5) \<and> message_of ?d5 = None \<and>
      (map_of ?d5 (asc ''choices'') = None \<or>
       map_of ?d5 (asc ''choices'') = Some JNull \<and> py_len JNull = Some 0)"
    by (simp add: message_of_def asc_def)
  have h6: "body_json ?r6 = Some (JObj ?d6) \<and> message_of ?d6 = None \<and>
      map_of ?d6 (asc ''choices'') = Some (JNum (asc ''5'')) \<and>
      (py_len (JNum (asc ''5'')) = None \<or>
       py_len (JNum (asc ''5'')) = Some (Suc 0) \<and> choices_content (JNum (asc ''5'')) = None)"
    by (simp add: message_of_def asc_def)
  have h7: "body_json ?r7 = Some (JArr []) \<and> \<not> is_dict (JArr [])"
    by (simp add: is_dict_def)
  have v: "dict_get ?m (asc ''content'') (JStr []) = JStr (asc ''hello'')"
    "dict_get ?m3 (asc ''content'') (JStr []) = JStr (asc ''hi'')"
    "body_text ?r1 = asc ''plain text''" "body_text ?r6 = asc ''{...}''"
    by (simp_all add: dict_get_def)
  from C7_extract_reply [of ?r1, THEN conjunct1, THEN mp, OF h1]
  have a1: "extract_reply ?r1 = Value (JStr (body_text ?r1))" .
  from C7_extract_reply [of ?r2 ?d2 ?m, THEN conjunct2, THEN conjunct1, THEN mp, OF h2]
  have a2: "extract_reply ?r2 = Value (dict_get ?m (asc ''content'') (JStr []))" .
  from C7_extract_reply [of ?r3 ?d3 ?m3 ?c3 "[]", THEN conjunct2, THEN conjunct2, THEN conjunct1, THEN mp, OF h3]
  have a3: "extract_reply ?r3 = Value (dict_get ?m3 (asc ''content'') (JStr []))" .
  from C7_extract_reply [of ?r4 ?d4 "[]" "[]" "[]", THEN conjunct2, THEN conjunct2, THEN conjunct2, THEN conjunct1, THEN mp, OF h4]
  have a4: "extract_reply ?r4 = Value (JStr [])" .
  from C7_extract_reply [of ?r5 ?d5 "[]" "[]" "[]" JNull, THEN conjunct2, THEN conjunct2, THEN conjunct2, THEN conjunct2, THEN conjunct1, THEN mp, OF h5]
  have a5: "extract_reply ?r5 = Dumps (JObj ?d5)" .
  from C7_extract_reply [of ?r6 ?d6 "[]" "[]" "[]" "JNum (asc ''5'')" 0, THEN conjunct2, THEN conjunct2, THEN conjunct2, THEN conjunct2, THEN conjunct2, THEN conjunct1, THEN mp, OF h6]
  have a6: "extract_reply ?r6 = Value (JStr (body_text ?r6))" .
  from C7_extract_reply [of ?r7 "[]" "[]" "[]" "[]" JNull 0 "JArr []", THEN conjunct2, THEN conjunct2, THEN conjunct2, THEN conjunct2, THEN conjunct2, THEN conjunct2, THEN conjunct1, THEN mp, OF h7]
  have a7: "extract_reply ?r7 = Str (JArr [])" .
  have h8: "body_json ?r2 = Some (JObj ?d2) \<and>
      spec_message_content (JObj ?d2) = Some (JStr (asc ''hello''))"
    by (simp add: spec_message_content_def field_def)
  from C7_extract_reply
    [of ?r2 "[]" "[]" "[]" "[]" JNull 0 "JObj ?d2" "JStr (asc ''hello'')", THEN conjunct2, THEN conjunct2, THEN conjunct2, THEN conjunct2, THEN conjunct2, THEN conjunct2, THEN conjunct2, THEN mp, OF h8]
  have a8: "spec_extract_reply ?r2 = Value (JStr (asc ''hello''))"
    by (elim conjE)
  from a1 a2 a3 a4 a5 a6 a7 a8 show ?thesis
    by (simp only: v simp_thms)
qed

section \<open>Properties of the clipboard polling\<close>

lemma check_clipboard_read:
  "check_clipboard st p =
     (if read_value p = [] \<or> read_value p = last_clip st then (st, [])
      else (st\<lparr>last_clip := read_value p\<rparr>,
            [if \<not> ollama_checked st then Translate (read_value p) else Display (read_value p)]))"
  by (cases p) (simp_all add: check_clipboard_def read_value_def Let_def)

lemma poll_Cons:
  "poll st (p # ps) =
     (fst (poll (fst (check_clipboard st p)) ps),
      snd (check_clipboard st p) # snd (poll (fst (check_clipboard st p)) ps))"
  by (simp add: case_prod_beta)

lemma poll_snoc:
  "snd (poll st (ps @ [p])) =
     snd (poll st ps) @ [snd (check_clipboard (fst (poll st ps)) p)]"
  by (induction ps arbitrary: st) (simp_all add: poll_Cons del: poll.simps(2))

lemma fst_poll:
  "fst (poll st ps) = st\<lparr>last_clip := last_text (last_clip st) (map read_value ps)\<rparr>"
proof (induction ps arbitrary: st)
  case Nil
  then show ?case by simp
next
  case (Cons p ps)
  have "fst (poll st (p # ps)) = fst (poll (fst (check_clipboard st p)) ps)"
    by (simp add: poll_Cons del: poll.simps(2))
  also have "\<dots> = (fst (check_clipboard st p))
      \<lparr>last_clip := last_text (last_clip (fst (check_clipboard st p))) (map read_value ps)\<rparr>"
    by (rule Cons.IH)
  also have "\<dots> = st\<lparr>last_clip := last_text (last_clip st) (map read_value (p # ps))\<rparr>"
    by (simp add: check_clipboard_read)
  finally show ?case .
qed

lemma length_poll: "length (snd (poll st ps)) = length ps"
  by (induction ps arbitrary: st) (simp_all add: poll_Cons del: poll.simps(2))

text \<open>
  Claim C8, amended. What a tick reads is the clipboard text stripped of surrounding
  white space, and nothing when the read raised. Over every sequence of ticks, each tick
  gives one entry of the output; the recorded value is the last read so far that was not
  empty (the initial record when there was none); a tick whose read is empty or equals
  the recorded value triggers nothing, and a tick whose read is not empty and differs
  from the recorded value triggers a translation, or a display in the question mode,
  also when the read equals a value recorded earlier. \<open>app.py\<close> does the same on its own
  record, always with a translation, and nothing at all without \<open>pyperclip\<close>.
\<close>

theorem C8_clipboard_polling:
  "length (snd (poll st ps)) = length ps \<and>
   last_clip (fst (poll st ps)) = last_text (last_clip st) (map read_value ps) \<and>
   snd (poll st (ps @ [p])) =
     snd (poll st ps) @
     [if read_value p = [] \<or> read_value p = last_text (last_clip st) (map read_value ps)
      then []
      else [if ollama_checked st then Display (read_value p) else Translate (read_value p)]] \<and>
   app_check_clipboard True clip p =
     (if read_value p = [] \<or> read_value p = clip then (clip, [])
      else (read_value p, [Translate (read_value p)])) \<and>
   app_check_clipboard False clip p = (clip, [])"
proof (intro conjI)
  show "length (snd (poll st ps)) = length ps"
    by (rule length_poll)
  show "last_clip (fst (poll st ps)) = last_text (last_clip st) (map read_value ps)"
    by (simp add: fst_poll)
  show "snd (poll st (ps @ [p])) =
     snd (poll st ps) @
     [if read_value p = [] \<or> read_value p = last_text (last_clip st) (map read_value ps)
      then []
      else [if ollama_checked st then Display (read_value p) else Translate (read_value p)]]"
    by (simp add: poll_snoc fst_poll check_clipboard_read)
  show "app_check_clipboard True clip p =
     (if read_value p = [] \<or> read_value p = clip then (clip, [])
      else (read_value p, [Translate (read_value p)]))"
    by (cases p) (simp_all add: app_check_clipboard_def read_value_def Let_def)
  show "app_check_clipboard False clip p = (clip, [])"
    by (simp add: app_check_clipboard_def)
qed

lemmas clip_defs = check_clipboard_def read_value_def strip_def is_space_def asc_def Let_def

text \<open>
  Against claim C8 as stated: after \<open>abc\<close> the clipboard is read empty; the read
  differs from the last observed value and nothing is triggered; the next read of
  \<open>abc\<close> differs from the empty read before it and triggers nothing either.
\<close>

theorem C8_counterexample:
  "read_value (Inr []) \<noteq> last_clip \<lparr>last_clip = asc ''abc'', ollama_checked = False\<rparr> \<and>
   check_clipboard \<lparr>last_clip = asc ''abc'', ollama_checked = False\<rparr> (Inr []) =
     (\<lparr>last_clip = asc ''abc'', ollama_checked = False\<rparr>, []) \<and>
   snd (poll \<lparr>last_clip = [], ollama_checked = False\<rparr>
          [Inr (asc ''abc''), Inr [], Inr (asc ''abc'')]) =
     [[Translate (asc ''abc'')], [], []]"
  by (simp add: clip_defs)

text \<open>
  The theorem of C8 at three sequences: a change back to an earlier value triggers, a
  repeated value does not, and empty or failing reads leave the record.
\<close>

theorem C8_witness:
  "snd (poll \<lparr>last_clip = [], ollama_checked = False\<rparr>
          ([Inr (asc ''a''), Inr (asc ''b'')] @ [Inr (asc '' a '')])) =
     snd (poll \<lparr>last_clip = [], ollama_checked = False\<rparr> [Inr (asc ''a''), Inr (asc ''b'')]) @
     [[Translate (asc ''a'')]] \<and>
   snd (poll \<lparr>last_clip = [], ollama_checked = True\<rparr>
          ([Inr (asc ''a'')] @ [Inr (asc ''a'')])) =
     snd (poll \<lparr>last_clip = [], ollama_checked = True\<rparr> [Inr (asc ''a'')]) @ [[]] \<and>
   last_clip (fst (poll \<lparr>last_clip = [], ollama_checked = False\<rparr>
          [Inr (asc ''a''), Inr [], Inl (Exn (asc ''no clipboard''))])) = asc ''a''"
proof -
  let ?st = "\<lparr>last_clip = [], ollama_checked = False\<rparr>"
  let ?st' = "\<lparr>last_clip = [], ollama_checked = True\<rparr>"
  note t1 = C8_clipboard_polling [of ?st "[Inr (asc ''a''), Inr (asc ''b'')]" "Inr (asc '' a '')"]
  note t2 = C8_clipboard_polling [of ?st' "[Inr (asc ''a'')]" "Inr (asc ''a'')"]
  note t3 = C8_clipboard_polling
    [of ?st "[Inr (asc ''a''), Inr [], Inl (Exn (asc ''no clipboard''))]"]
  have v1: "[if read_value (Inr (asc '' a '')) = [] \<or>
        read_value (Inr (asc '' a '')) =
          last_text (last_clip ?st) (map read_value [Inr (asc ''a''), Inr (asc ''b'')])
      then []
      else [if ollama_checked ?st then Display (read_value (Inr (asc '' a '')))
            else Translate (read_value (Inr (asc '' a '')))]] = [[Translate (asc ''a'')]]"
    by (simp add: clip_defs)
  have v2: "[if read_value (Inr (asc ''a'')) = [] \<or>
        read_value (Inr (asc ''a'')) = last_text (last_clip ?st') (map read_value [Inr (asc ''a'')])
      then []
      else [if ollama_checked ?st' then Display (read_value (Inr (asc ''a'')))
            else Translate (read_value (Inr (asc ''a'')))]] = [[]]"
    by (simp add: clip_defs)
  have v3: "last_text (last_clip ?st)
      (map read_value [Inr (asc ''a''), Inr [], Inl (Exn (asc ''no clipboard''))]) = asc ''a''"
    by (simp add: clip_defs)
  from t1 have a1: "snd (poll ?st ([Inr (asc ''a''), Inr (asc ''b'')] @ [Inr (asc '' a '')])) =
     snd (poll ?st [Inr (asc ''a''), Inr (asc ''b'')]) @ [[Translate (asc ''a'')]]"
    by (simp only: v1)
  from t2 have a2: "snd (poll ?st' ([Inr (asc ''a'')] @ [Inr (asc ''a'')])) =
     snd (poll ?st' [Inr (asc ''a'')]) @ [[]]"
    by (simp only: v2)
  from t3 have a3: "last_clip (fst (poll ?st
      [Inr (asc ''a''), Inr [], Inl (Exn (asc ''no clipboard''))])) = asc ''a''"
    by (simp only: v3)
  from a1 a2 a3 show ?thesis
    by blast
qed

section \<open>The normalised answer\<close>



lemma join_Cons: "xs \<noteq> [] \<Longrightarrow> join sep (x # xs) = x @ sep @ join sep xs"
  by (cases xs) simp_all













section \<open>The streamed chunks\<close>

lemma startswith_drop: "startswith p s \<Longrightarrow> p @ drop (length p) s = s"
  by (induction p s rule: startswith.induct) simp_all

lemma split_from_nonempty: "split_from sep cur s \<noteq> []"
  by (induction sep cur s rule: split_from.induct) simp_all

lemma join_split_from: "join sep (split_from sep cur s) = cur @ s"
proof (induction sep cur s rule: split_from.induct)
  case (1 sep cur)
  then show ?case by simp
next
  case (2 sep cur c cs)
  show ?case
  proof (cases "sep \<noteq> [] \<and> startswith sep (c # cs)")
    case True
    with 2 have "join sep (split_from sep [] (drop (length sep) (c # cs))) = drop (length sep) (c # cs)"
      by simp
    with True show ?thesis
      using startswith_drop [of sep "c # cs"]
      by (simp add: join_Cons split_from_nonempty del: startswith.simps)
  next
    case False
    with 2 show ?thesis by auto
  qed
qed

lemma concat_chunks:
  "i + length ws = n \<Longrightarrow> concat (chunks n i ws) = join [32] ws"
proof (induction ws arbitrary: i)
  case Nil
  then show ?case by simp
next
  case (Cons w ws)
  show ?case
  proof (cases ws)
    case Nil
    with Cons.prems show ?thesis by simp
  next
    case (Cons y ys)
    with Cons.prems have "i < n - 1" "Suc i + length ws = n"
      by simp_all
    with Cons.IH [of "Suc i"] Cons show ?thesis
      by simp
  qed
qed

lemma concat_generate: "concat (generate answer) = answer"
  by (simp add: generate_def Let_def concat_chunks split_def join_split_from)


section \<open>Properties of the web server\<close>

lemma get_ollama_response_Some:
  "get_ollama_response st post q c l = (Some a, st', calls) \<Longrightarrow>
   \<exists>r. a = normalize r \<and> st' = st\<lparr>latest_answer := a\<rparr> \<and> calls = [Generate (prompt q c l)]"
  by (auto simp: get_ollama_response_def Let_def
      split: sum.splits if_splits option.splits json.splits)

lemma get_ollama_response_None:
  "get_ollama_response st post q c l = (None, st', calls) \<Longrightarrow>
   st' = st \<and> calls = [Generate (prompt q c l)]"
  by (auto simp: get_ollama_response_def Let_def
      split: sum.splits if_splits option.splits json.splits)

lemma stream_text_TextStream:
  "stream_text st data post = (TextStream cs, st', calls) \<Longrightarrow>
   \<exists>r. normalize r \<noteq> [] \<and> cs = generate (normalize r) \<and>
       st' = st\<lparr>latest_answer := normalize r\<rparr>"
proof -
  assume a: "stream_text st data post = (TextStream cs, st', calls)"
  let ?q = "strip (question data)"
  obtain ans st1 calls1 where
    g: "get_ollama_response st post ?q (context' data) (language data) = (ans, st1, calls1)"
    by (cases "get_ollama_response st post ?q (context' data) (language data)") auto
  from a g obtain answer where s: "ans = Some answer" "answer \<noteq> []"
    "cs = generate answer" "st' = st1"
    by (cases ans) (auto simp: stream_text_def Let_def split: if_splits)
  from g s(1) obtain r where "answer = normalize r" "st1 = st\<lparr>latest_answer := answer\<rparr>"
    using get_ollama_response_Some by blast
  with s show ?thesis by blast
qed



lemmas web_defs =
  get_ollama_response_def stream_text_def stream_audio_def get_best_voice_def normalize_def
  generate_def dict_get_def strip_def split_def split_ws_def replace_def is_space_def asc_def
  Let_def


lemma stream_audio_stored:
  assumes "latest_answer st \<noteq> []"
  shows "stream_audio st qf post dv syn =
     (if strip qf = [] \<or> \<not> polly_client st
      then (Plain 500 (asc ''Audio not available''), st, [])
      else (case get_best_voice st dv of
              None \<Rightarrow> (Plain 500 (asc ''No voice available''), st, [DescribeVoices])
            | Some (v, e) \<Rightarrow>
                if v = [] then (Plain 500 (asc ''No voice available''), st, [DescribeVoices])
                else (case syn of
                        Inl x \<Rightarrow>
                          (Plain 500 (asc ''Audio generation failed''), st,
                           [DescribeVoices, SynthesizeSpeech (latest_answer st) v e])
                      | Inr u \<Rightarrow>
                          (AudioStream (latest_answer st), st,
                           [DescribeVoices, SynthesizeSpeech (latest_answer st) v e]))))"
  using assms
  by (simp add: stream_audio_def Let_def split: option.splits prod.splits sum.splits)

lemma stream_audio_generate:
  assumes "Generate p \<in> set (snd (snd (stream_audio st qf post dv syn)))"
  shows "latest_answer st = [] \<and> p = prompt (strip qf) [] (asc ''english'')"
proof (cases "latest_answer st = []")
  case False
  then have "Generate p \<notin> set (snd (snd (stream_audio st qf post dv syn)))"
    by (auto simp: stream_audio_stored split: option.splits prod.splits sum.splits)
  with assms show ?thesis by simp
next
  case True
  obtain ans st1 calls1 where
    g: "get_ollama_response st post (strip qf) [] (asc ''english'') = (ans, st1, calls1)"
    by (cases "get_ollama_response st post (strip qf) [] (asc ''english'')") auto
  then have c: "calls1 = [Generate (prompt (strip qf) [] (asc ''english''))]"
    using get_ollama_response_Some get_ollama_response_None by (cases ans) blast+
  from assms True g c have "p = prompt (strip qf) [] (asc ''english'')"
    by (auto simp: stream_audio_def Let_def
        split: if_splits option.splits prod.splits sum.splits)
  with True show ?thesis by simp
qed

lemma stream_audio_empty:
  assumes "latest_answer st = []" and "strip qf \<noteq> []" and "polly_client st"
  shows "filter is_generate (snd (snd (stream_audio st qf post dv syn))) =
     [Generate (prompt (strip qf) [] (asc ''english''))]"
proof -
  obtain ans st1 calls1 where
    g: "get_ollama_response st post (strip qf) [] (asc ''english'') = (ans, st1, calls1)"
    by (cases "get_ollama_response st post (strip qf) [] (asc ''english'')") auto
  then have c: "calls1 = [Generate (prompt (strip qf) [] (asc ''english''))]"
    using get_ollama_response_Some get_ollama_response_None by (cases ans) blast+
  from assms g c show ?thesis
    by (auto simp: stream_audio_def Let_def
        split: if_splits option.splits prod.splits sum.splits)
qed

lemma get_ollama_response_stores:
  "fst (get_ollama_response st post q c l) = Some a \<Longrightarrow>
   latest_answer (fst (snd (get_ollama_response st post q c l))) = a"
proof -
  assume f: "fst (get_ollama_response st post q c l) = Some a"
  obtain ans st' calls where g: "get_ollama_response st post q c l = (ans, st', calls)"
    by (cases "get_ollama_response st post q c l") auto
  with f have "get_ollama_response st post q c l = (Some a, st', calls)"
    by simp
  then have "st' = st\<lparr>latest_answer := a\<rparr>"
    using get_ollama_response_Some by blast
  with g show ?thesis by simp
qed

lemma get_ollama_response_keeps:
  "fst (get_ollama_response st post q c l) = None \<Longrightarrow>
   fst (snd (get_ollama_response st post q c l)) = st"
proof -
  assume f: "fst (get_ollama_response st post q c l) = None"
  obtain ans st' calls where g: "get_ollama_response st post q c l = (ans, st', calls)"
    by (cases "get_ollama_response st post q c l") auto
  with f have "get_ollama_response st post q c l = (None, st', calls)"
    by simp
  then have "st' = st"
    using get_ollama_response_None by blast
  with g show ?thesis by simp
qed

text \<open>
  Claim C9, amended. When the stored last answer is not empty, \<open>stream_audio\<close> makes no
  call to the inference server and leaves the globals as they are, and the only text it
  has spoken is the stored answer; with a question that is not empty, the speech client
  and a voice, it asks for the speech of exactly the stored answer and streams it when
  that call returns. It calls the inference server only when the stored answer is empty,
  and then with the prompt of its own question; and when the stored answer is empty, the
  question is not and the speech client is there, it does call it. The stored answer is
  empty not only before any answer was generated: every call of \<open>get_ollama_response\<close>
  that returns an answer stores it, also the empty one, and a call that returns none
  leaves the stored answer as it was. After a text request that streamed an answer, the
  stored answer is that answer, and it is not empty.
\<close>

theorem C9_audio_uses_stored_answer:
  "(latest_answer st \<noteq> [] \<longrightarrow>
      filter is_generate (snd (snd (stream_audio st qf post dv syn))) = [] \<and>
      fst (snd (stream_audio st qf post dv syn)) = st \<and>
      (filter is_synthesize (snd (snd (stream_audio st qf post dv syn))) = [] \<or>
       (\<exists>v e. filter is_synthesize (snd (snd (stream_audio st qf post dv syn))) =
          [SynthesizeSpeech (latest_answer st) v e]))) \<and>
   (latest_answer st \<noteq> [] \<and> strip qf \<noteq> [] \<and> polly_client st \<and>
    get_best_voice st dv = Some (v, e) \<and> v \<noteq> [] \<longrightarrow>
      snd (snd (stream_audio st qf post dv syn)) =
        [DescribeVoices, SynthesizeSpeech (latest_answer st) v e] \<and>
      (syn = Inr () \<longrightarrow> fst (stream_audio st qf post dv syn) = AudioStream (latest_answer st))) \<and>
   (Generate p \<in> set (snd (snd (stream_audio st qf post dv syn))) \<longrightarrow>
      latest_answer st = [] \<and> p = prompt (strip qf) [] (asc ''english'')) \<and>
   (stream_text st0 data post0 = (TextStream cs, st, calls) \<longrightarrow>
      latest_answer st = concat cs \<and> latest_answer st \<noteq> []) \<and>
   (latest_answer st = [] \<and> strip qf \<noteq> [] \<and> polly_client st \<longrightarrow>
      filter is_generate (snd (snd (stream_audio st qf post dv syn))) =
        [Generate (prompt (strip qf) [] (asc ''english''))]) \<and>
   (fst (get_ollama_response st1 post1 q c l) = Some a \<longrightarrow>
      latest_answer (fst (snd (get_ollama_response st1 post1 q c l))) = a) \<and>
   (fst (get_ollama_response st1 post1 q c l) = None \<longrightarrow>
      fst (snd (get_ollama_response st1 post1 q c l)) = st1)"
proof (intro conjI impI)
  assume a: "latest_answer st \<noteq> []"
  show "filter is_generate (snd (snd (stream_audio st qf post dv syn))) = []"
    by (simp add: stream_audio_stored [OF a] split: option.splits prod.splits sum.splits)
  show "fst (snd (stream_audio st qf post dv syn)) = st"
    by (simp add: stream_audio_stored [OF a] split: option.splits prod.splits sum.splits)
  show "filter is_synthesize (snd (snd (stream_audio st qf post dv syn))) = [] \<or>
       (\<exists>v e. filter is_synthesize (snd (snd (stream_audio st qf post dv syn))) =
          [SynthesizeSpeech (latest_answer st) v e])"
    by (simp add: stream_audio_stored [OF a] split: option.splits prod.splits sum.splits)
next
  assume a: "latest_answer st \<noteq> [] \<and> strip qf \<noteq> [] \<and> polly_client st \<and>
    get_best_voice st dv = Some (v, e) \<and> v \<noteq> []"
  then have l: "latest_answer st \<noteq> []" by simp
  from a show "snd (snd (stream_audio st qf post dv syn)) =
        [DescribeVoices, SynthesizeSpeech (latest_answer st) v e]"
    by (simp add: stream_audio_stored [OF l] split: sum.splits)
  from a show "syn = Inr () \<Longrightarrow>
      fst (stream_audio st qf post dv syn) = AudioStream (latest_answer st)"
    by (simp add: stream_audio_stored [OF l])
next
  assume "Generate p \<in> set (snd (snd (stream_audio st qf post dv syn)))"
  then have g: "latest_answer st = [] \<and> p = prompt (strip qf) [] (asc ''english'')"
    by (rule stream_audio_generate)
  from g show "latest_answer st = []" by simp
  from g show "p = prompt (strip qf) [] (asc ''english'')" by simp
next
  assume "stream_text st0 data post0 = (TextStream cs, st, calls)"
  then obtain r where r: "normalize r \<noteq> []" "cs = generate (normalize r)"
    "st = st0\<lparr>latest_answer := normalize r\<rparr>"
    using stream_text_TextStream by blast
  then show "latest_answer st = concat cs" by (simp add: concat_generate)
  from r show "latest_answer st \<noteq> []" by simp
next
  assume "latest_answer st = [] \<and> strip qf \<noteq> [] \<and> polly_client st"
  then show "filter is_generate (snd (snd (stream_audio st qf post dv syn))) =
        [Generate (prompt (strip qf) [] (asc ''english''))]"
    by (simp add: stream_audio_empty)
next
  assume "fst (get_ollama_response st1 post1 q c l) = Some a"
  then show "latest_answer (fst (snd (get_ollama_response st1 post1 q c l))) = a"
    by (rule get_ollama_response_stores)
next
  assume "fst (get_ollama_response st1 post1 q c l) = None"
  then show "fst (snd (get_ollama_response st1 post1 q c l)) = st1"
    by (rule get_ollama_response_keeps)
qed

text \<open>
  Against claim C9 as stated: a text request streams \<open>Paris.\<close> and stores it; the next
  one gets status 200 with nothing but white space, which stores the empty answer; the
  audio request that follows calls the inference server with its own question, although
  an answer has been generated before. And a text request that fails leaves \<open>Paris.\<close>
  stored, which is then not the answer of the most recent text request.
\<close>

theorem C9_counterexample:
  "fst (snd (stream_text \<lparr>latest_answer = [], polly_client = True\<rparr>
      \<lparr>question = asc ''Capital of France?'', context' = [], language = asc ''english''\<rparr>
      (Inr \<lparr>status_code = 200, body_text = [],
            body_json = Some (JObj [(asc ''response'', JStr (asc ''Paris.''))])\<rparr>))) =
     \<lparr>latest_answer = asc ''Paris.'', polly_client = True\<rparr> \<and>
   fst (snd (stream_text \<lparr>latest_answer = asc ''Paris.'', polly_client = True\<rparr>
      \<lparr>question = asc ''And of Spain?'', context' = [], language = asc ''english''\<rparr>
      (Inr \<lparr>status_code = 200, body_text = [],
            body_json = Some (JObj [(asc ''response'', JStr [32, 10])])\<rparr>))) =
     \<lparr>latest_answer = [], polly_client = True\<rparr> \<and>
   snd (snd (stream_audio \<lparr>latest_answer = [], polly_client = True\<rparr>
      (asc ''What is 2+2?'')
      (Inr \<lparr>status_code = 200, body_text = [],
            body_json = Some (JObj [(asc ''response'', JStr (asc ''4''))])\<rparr>)
      (Inr [(asc ''Kajal'', asc ''en-IN'')]) (Inr ()))) =
     [Generate (prompt (asc ''What is 2+2?'') [] (asc ''english'')),
      DescribeVoices, SynthesizeSpeech (asc ''4'') (asc ''Kajal'') (asc ''neural'')] \<and>
   fst (snd (stream_text \<lparr>latest_answer = asc ''Paris.'', polly_client = True\<rparr>
      \<lparr>question = asc ''And of Spain?'', context' = [], language = asc ''english''\<rparr>
      (Inr \<lparr>status_code = 500, body_text = [], body_json = None\<rparr>))) =
     \<lparr>latest_answer = asc ''Paris.'', polly_client = True\<rparr>"
  by (simp add: web_defs)

text \<open>
  The theorem of C9: the stored answer \<open>Paris.\<close> is spoken for a request that asks
  something else; with nothing stored the request's own question is sent; an answer that
  is returned is stored and a failed call leaves the stored one.
\<close>

theorem C9_witness:
  "snd (snd (stream_audio \<lparr>latest_answer = asc ''Paris.'', polly_client = True\<rparr>
      (asc ''What is 2+2?'')
      (Inr \<lparr>status_code = 200, body_text = [],
            body_json = Some (JObj [(asc ''response'', JStr (asc ''4''))])\<rparr>)
      (Inr [(asc ''Joanna'', asc ''en-US''), (asc ''Kajal'', asc ''en-IN'')]) (Inr ()))) =
     [DescribeVoices, SynthesizeSpeech (asc ''Paris.'') (asc ''Kajal'') (asc ''neural'')] \<and>
   fst (stream_audio \<lparr>latest_answer = asc ''Paris.'', polly_client = True\<rparr>
      (asc ''What is 2+2?'')
      (Inr \<lparr>status_code = 200, body_text = [],
            body_json = Some (JObj [(asc ''response'', JStr (asc ''4''))])\<rparr>)
      (Inr [(asc ''Joanna'', asc ''en-US''), (asc ''Kajal'', asc ''en-IN'')]) (Inr ())) =
     AudioStream (asc ''Paris.'') \<and>
   filter is_generate (snd (snd (stream_audio \<lparr>latest_answer = asc ''Paris.'', polly_client = True\<rparr>
      (asc ''What is 2+2?'')
      (Inr \<lparr>status_code = 200, body_text = [],
            body_json = Some (JObj [(asc ''response'', JStr (asc ''4''))])\<rparr>)
      (Inr [(asc ''Joanna'', asc ''en-US''), (asc ''Kajal'', asc ''en-IN'')]) (Inr ())))) = [] \<and>
   latest_answer \<lparr>latest_answer = [], polly_client = True\<rparr> = [] \<and>
   latest_answer \<lparr>latest_answer = asc ''Paris.'', polly_client = True\<rparr> =
     concat [asc ''Paris.''] \<and>
   filter is_generate (snd (snd (stream_audio \<lparr>latest_answer = [], polly_client = True\<rparr>
      (asc ''What is 2+2?'')
      (Inr \<lparr>status_code = 200, body_text = [],
            body_json = Some (JObj [(asc ''response'', JStr (asc ''4''))])\<rparr>)
      (Inr [(asc ''Joanna'', asc ''en-US''), (asc ''Kajal'', asc ''en-IN'')]) (Inr ())))) =
     [Generate (prompt (asc ''What is 2+2?'') [] (asc ''english''))] \<and>
   latest_answer (fst (snd (get_ollama_response \<lparr>latest_answer = asc ''Paris.'', polly_client = True\<rparr>
      (Inr \<lparr>status_code = 200, body_text = [],
            body_json = Some (JObj [(asc ''response'', JStr [32, 10])])\<rparr>)
      (asc ''And of Spain?'') [] (asc ''english'')))) = [] \<and>
   fst (snd (get_ollama_response \<lparr>latest_answer = asc ''Paris.'', polly_client = True\<rparr>
      (Inl (Exn (asc ''timeout''))) (asc ''And of Spain?'') [] (asc ''english''))) =
     \<lparr>latest_answer = asc ''Paris.'', polly_client = True\<rparr>"
proof -
  let ?st = "\<lparr>latest_answer = asc ''Paris.'', polly_client = True\<rparr>"
  let ?ste = "\<lparr>latest_answer = [], polly_client = True\<rparr>"
  let ?qf = "asc ''What is 2+2?''"
  let ?q2 = "asc ''And of Spain?''"
  let ?resp = "\<lparr>status_code = 200, body_text = [],
      body_json = Some (JObj [(asc ''response'', JStr (asc ''4''))])\<rparr>"
  let ?respP = "\<lparr>status_code = 200, body_text = [],
      body_json = Some (JObj [(asc ''response'', JStr (asc ''Paris.''))])\<rparr>"
  let ?respB = "\<lparr>status_code = 200, body_text = [],
      body_json = Some (JObj [(asc ''response'', JStr [32, 10])])\<rparr>"
  let ?dv = "Inr [(asc ''Joanna'', asc ''en-US''), (asc ''Kajal'', asc ''en-IN'')]"
  let ?data = "\<lparr>question = asc ''Capital of France?'', context' = [], language = asc ''english''\<rparr>"
  let ?p = "prompt (strip ?qf) [] (asc ''english'')"
  let ?callsP = "[Generate (prompt (asc ''Capital of France?'') [] (asc ''english''))]"
  have h1: "latest_answer ?st \<noteq> []"
    by (simp add: asc_def)
  have h2: "latest_answer ?st \<noteq> [] \<and> strip ?qf \<noteq> [] \<and> polly_client ?st \<and>
      get_best_voice ?st ?dv = Some (asc ''Kajal'', asc ''neural'') \<and> asc ''Kajal'' \<noteq> []"
    by (simp add: web_defs)
  have h3: "Generate ?p \<in> set (snd (snd (stream_audio ?ste ?qf (Inr ?resp) ?dv (Inr ()))))"
    by (simp add: web_defs)
  have h4: "stream_text ?ste ?data (Inr ?respP) = (TextStream [asc ''Paris.''], ?st, ?callsP)"
    by (simp add: web_defs)
  have h5: "latest_answer ?ste = [] \<and> strip ?qf \<noteq> [] \<and> polly_client ?ste"
    by (simp add: web_defs)
  have h6: "fst (get_ollama_response ?st (Inr ?respB) ?q2 [] (asc ''english'')) = Some []"
    by (simp add: web_defs)
  have h7: "fst (get_ollama_response ?st (Inl (Exn (asc ''timeout''))) ?q2 [] (asc ''english'')) =
      None"
    by (simp add: web_defs)
  have v: "latest_answer ?st = asc ''Paris.''"
    by simp
  have w: "strip ?qf = ?qf"
    by (simp add: web_defs)
  note t = C9_audio_uses_stored_answer [where st = ?st and qf = ?qf and post = "Inr ?resp"
      and dv = ?dv and syn = "Inr ()" and v = "asc ''Kajal''" and e = "asc ''neural''"
      and ?st0.0 = ?ste and data = ?data and ?post0.0 = "Inr ?respP" and cs = "[asc ''Paris.'']"
      and calls = ?callsP and ?st1.0 = ?st and ?post1.0 = "Inr ?respB" and q = ?q2 and c = "[]"
      and l = "asc ''english''" and a = "[]"]
  note u = C9_audio_uses_stored_answer [where st = ?ste and qf = ?qf and post = "Inr ?resp"
      and dv = ?dv and syn = "Inr ()" and p = ?p and ?st1.0 = ?st
      and ?post1.0 = "Inl (Exn (asc ''timeout''))" and q = ?q2 and c = "[]"
      and l = "asc ''english''"]
  from t [THEN conjunct1, THEN mp, OF h1]
  have a1: "filter is_generate (snd (snd (stream_audio ?st ?qf (Inr ?resp) ?dv (Inr ())))) = []"
    by (elim conjE)
  from t [THEN conjunct2, THEN conjunct1, THEN mp, OF h2]
  have a2: "snd (snd (stream_audio ?st ?qf (Inr ?resp) ?dv (Inr ()))) =
        [DescribeVoices, SynthesizeSpeech (asc ''Paris.'') (asc ''Kajal'') (asc ''neural'')] \<and>
      fst (stream_audio ?st ?qf (Inr ?resp) ?dv (Inr ())) = AudioStream (asc ''Paris.'')"
    by (simp only: v simp_thms)
  from u [THEN conjunct2, THEN conjunct2, THEN conjunct1, THEN mp, OF h3]
  have a3: "latest_answer ?ste = []"
    by (elim conjE)
  from t [THEN conjunct2, THEN conjunct2, THEN conjunct2, THEN conjunct1, THEN mp, OF h4]
  have a4: "latest_answer ?st = concat [asc ''Paris.'']"
    by (elim conjE)
  from u [THEN conjunct2, THEN conjunct2, THEN conjunct2, THEN conjunct2, THEN conjunct1,
      THEN mp, OF h5]
  have a5: "filter is_generate (snd (snd (stream_audio ?ste ?qf (Inr ?resp) ?dv (Inr ())))) =
      [Generate (prompt ?qf [] (asc ''english''))]"
    by (simp only: w)
  from t [THEN conjunct2, THEN conjunct2, THEN conjunct2, THEN conjunct2, THEN conjunct2,
      THEN conjunct1, THEN mp, OF h6]
  have a6: "latest_answer (fst (snd (get_ollama_response ?st (Inr ?respB) ?q2 []
      (asc ''english'')))) = []" .
  from u [THEN conjunct2, THEN conjunct2, THEN conjunct2, THEN conjunct2, THEN conjunct2,
      THEN conjunct2, THEN mp, OF h7]
  have a7: "fst (snd (get_ollama_response ?st (Inl (Exn (asc ''timeout''))) ?q2 []
      (asc ''english''))) = ?st" .
  from a1 a2 a3 a4 a5 a6 a7 show ?thesis
    by (intro conjI) (elim conjE, assumption)+
qed

end
